theory Spec2Isabelle
  imports Complex_Main "HOL-Library.Monad_Syntax" "HOL-Library.Sublist"
begin

section \<open>Python values and exceptions\<close>

text \<open>
  The values that \<^verbatim>\<open>json.loads\<close> produces. An object is kept as the association list of
  its members and read with \<open>map_of\<close>. Python's \<^verbatim>\<open>int\<close> and \<^verbatim>\<open>float\<close> are both
  \<open>JNum\<close>: floats are taken as the real numbers they denote (comparison, \<^verbatim>\<open>min\<close> and
  \<^verbatim>\<open>max\<close> are exact on them; NaN and the infinities are left out). A string is a list
  of bytes, a character beyond ASCII being its UTF-8 bytes.
\<close>

datatype json =
    JNull
  | JBool bool
  | JNum real
  | JStr string
  | JArr "json list"
  | JObj "(string \<times> json) list"

text \<open>
  The exceptions the pipeline can meet. \<open>RequestException\<close> stands for whatever the
  transport raises (connection errors, time-outs, HTTP error statuses, an undecodable
  reply body) and carries that exception's text.
\<close>

datatype error =
    ValidationError
  | JSONDecodeError
  | AttributeError
  | TypeError
  | RequestException string

text \<open>\<^verbatim>\<open>str(e)\<close>. The wording of a library exception is the library's; its class name
  stands for it here.\<close>

fun str_exc :: "error \<Rightarrow> string" where
  "str_exc ValidationError = ''ValidationError''"
| "str_exc JSONDecodeError = ''JSONDecodeError''"
| "str_exc AttributeError = ''AttributeError''"
| "str_exc TypeError = ''TypeError''"
| "str_exc (RequestException msg) = msg"

text \<open>Sequencing of computations that may raise: the first exception ends the evaluation.\<close>

definition bind_exc :: "error + 'a \<Rightarrow> ('a \<Rightarrow> error + 'b) \<Rightarrow> error + 'b" where
  "bind_exc r f = (case r of Inl e \<Rightarrow> Inl e | Inr x \<Rightarrow> f x)"

text \<open>\<^verbatim>\<open>d.get(k, default)\<close>: only a dict has the method; on any other value the attribute
  lookup raises.\<close>

fun py_get :: "json \<Rightarrow> string \<Rightarrow> json \<Rightarrow> error + json" where
  "py_get (JObj d) k dflt = Inr (case map_of d k of Some v \<Rightarrow> v | None \<Rightarrow> dflt)"
| "py_get _ k dflt = Inl AttributeError"

text \<open>The number a value compares as against a float: numbers, and booleans as 1 and 0.
  Every other value raises \<^verbatim>\<open>TypeError\<close> when ordered against a float.\<close>

fun num_of :: "json \<Rightarrow> real option" where
  "num_of (JNum r) = Some r"
| "num_of (JBool b) = Some (if b then 1 else 0)"
| "num_of _ = None"

text \<open>\<^verbatim>\<open>max(v, c)\<close> and \<^verbatim>\<open>min(v, c)\<close> for a float literal \<open>c\<close>: the first argument is
  kept unless the second is strictly greater (smaller).\<close>

definition py_max :: "json \<Rightarrow> real \<Rightarrow> error + json" where
  "py_max v c = (case num_of v of None \<Rightarrow> Inl TypeError
                 | Some r \<Rightarrow> Inr (if c > r then JNum c else v))"

definition py_min :: "json \<Rightarrow> real \<Rightarrow> error + json" where
  "py_min v c = (case num_of v of None \<Rightarrow> Inl TypeError
                 | Some r \<Rightarrow> Inr (if c < r then JNum c else v))"

text \<open>\<^verbatim>\<open>str.lower()\<close>, on the ASCII letters.\<close>

definition lower_char :: "char \<Rightarrow> char" where
  "lower_char c =
     (case map_of (zip ''ABCDEFGHIJKLMNOPQRSTUVWXYZ'' ''abcdefghijklmnopqrstuvwxyz'') c of
        Some l \<Rightarrow> l | None \<Rightarrow> c)"

definition lower :: "string \<Rightarrow> string" where
  "lower s = map lower_char s"

text \<open>\<^verbatim>\<open>word in s\<close> on strings: \<open>word\<close> occurs in \<open>s\<close> as a contiguous run.\<close>

fun starts_with :: "string \<Rightarrow> string \<Rightarrow> bool" where
  "starts_with s [] = True"
| "starts_with [] (w # ws) = False"
| "starts_with (c # cs) (w # ws) = (c = w \<and> starts_with cs ws)"

fun str_in :: "string \<Rightarrow> string \<Rightarrow> bool" where
  "str_in word [] = (word = [])"
| "str_in word (c # cs) = (starts_with (c # cs) word \<or> str_in word cs)"

section \<open>The MELD schema\<close>

definition ACTION_TYPES :: "string list" where
  "ACTION_TYPES = [''cognitive_shift'', ''state'', ''visual'', ''sequence'',
     ''experience_adaptation'', ''processing_style'', ''focus_adjustment'']"

definition BEHAVIORS :: "string list" where
  "BEHAVIORS = [''guide'', ''analyze'', ''explore'', ''synthesize'', ''challenge'',
     ''acknowledge'', ''adapt'', ''focus'', ''diverge'', ''soothe'']"

definition PERSONAS :: "string list" where
  "PERSONAS = [''Strategist'', ''Architect'', ''Builder'', ''Explorer'', ''Sage'']"

record MELDAction =
  type :: string
  target :: "string option"
  value' :: "string option"
  duration :: "real option"
  priority :: "string option"

record MELDBehavior =
  name :: string
  goal :: "string option"
  actions :: "MELDAction list"

record EmotionalState =
  primary :: string
  secondary :: "string option"
  intensity :: real
  valence :: real
  arousal :: real
  stability :: "real option"

record MELDMessage =
  intent :: string
  persona :: string
  emotional_state :: EmotionalState
  emoji :: "string option"
  response :: string
  behavior :: MELDBehavior
  confidence :: real
  metadata :: "(string \<times> json) list option"

subsection \<open>Field validation\<close>

text \<open>
  What pydantic makes of one field. The argument is \<open>None\<close> when the field was not
  supplied. A number is accepted for a \<^verbatim>\<open>float\<close> field as it is; which other values the
  library coerces to a float (numeric strings, booleans), and to what, is the library's
  business and differs between its JSON mode and its Python mode, so it is a parameter
  of the model: \<open>json_mode\<close> is used when a JSON text is validated, \<open>python_mode\<close> when a
  model class is instantiated with keyword arguments.
\<close>

type_synonym lax = "json \<Rightarrow> real option"

record pydantic =
  json_mode :: lax
  python_mode :: lax

definition strict_floats :: pydantic where
  "strict_floats = \<lparr>json_mode = (\<lambda>v. None), python_mode = (\<lambda>v. None)\<rparr>"

definition str_field :: "json option \<Rightarrow> string option" where
  "str_field v = (case v of Some (JStr s) \<Rightarrow> Some s | _ \<Rightarrow> None)"

definition opt_str_field :: "json option \<Rightarrow> string option option" where
  "opt_str_field v =
     (case v of None \<Rightarrow> Some None
      | Some JNull \<Rightarrow> Some None
      | Some (JStr s) \<Rightarrow> Some (Some s)
      | _ \<Rightarrow> None)"

definition literal_field :: "string list \<Rightarrow> json option \<Rightarrow> string option" where
  "literal_field allowed v =
     (case v of Some (JStr s) \<Rightarrow> if s \<in> set allowed then Some s else None
      | _ \<Rightarrow> None)"

definition as_float :: "lax \<Rightarrow> json \<Rightarrow> real option" where
  "as_float lx v = (case v of JNum r \<Rightarrow> Some r | _ \<Rightarrow> lx v)"

text \<open>\<^verbatim>\<open>float = Field(..., ge=lo, le=hi)\<close>\<close>

definition float_field :: "lax \<Rightarrow> real \<Rightarrow> real \<Rightarrow> json option \<Rightarrow> real option" where
  "float_field lx lo hi v =
     (case v of None \<Rightarrow> None
      | Some x \<Rightarrow>
          (case as_float lx x of None \<Rightarrow> None
           | Some r \<Rightarrow> if lo \<le> r \<and> r \<le> hi then Some r else None))"

text \<open>\<^verbatim>\<open>Optional[float] = Field(None, ge=lo, le=hi)\<close>\<close>

definition opt_float_field :: "lax \<Rightarrow> real \<Rightarrow> real \<Rightarrow> json option \<Rightarrow> real option option" where
  "opt_float_field lx lo hi v =
     (case v of None \<Rightarrow> Some None
      | Some JNull \<Rightarrow> Some None
      | Some x \<Rightarrow> map_option Some (float_field lx lo hi (Some x)))"

text \<open>\<^verbatim>\<open>Optional[float] = None\<close>\<close>

definition opt_free_float_field :: "lax \<Rightarrow> json option \<Rightarrow> real option option" where
  "opt_free_float_field lx v =
     (case v of None \<Rightarrow> Some None
      | Some JNull \<Rightarrow> Some None
      | Some x \<Rightarrow> map_option Some (as_float lx x))"

text \<open>\<^verbatim>\<open>Optional[Dict[str, Any]] = None\<close>\<close>

definition opt_dict_field :: "json option \<Rightarrow> (string \<times> json) list option option" where
  "opt_dict_field v =
     (case v of None \<Rightarrow> Some None
      | Some JNull \<Rightarrow> Some None
      | Some (JObj d) \<Rightarrow> Some (Some d)
      | _ \<Rightarrow> None)"

definition validated :: "'a option \<Rightarrow> error + 'a" where
  "validated r = (case r of None \<Rightarrow> Inl ValidationError | Some x \<Rightarrow> Inr x)"

subsection \<open>The model classes\<close>

text \<open>
  For each class, \<open>_fields\<close> validates the fields one by one (a nested model is passed
  already validated), \<open>_init\<close> is the class instantiated with keyword arguments, which
  raises \<^verbatim>\<open>ValidationError\<close> when a field is refused, and \<open>_validate\<close> reads an instance
  off a decoded JSON value, unknown members being ignored.
\<close>

definition MELDAction_fields ::
  "lax \<Rightarrow> json option \<Rightarrow> json option \<Rightarrow> json option \<Rightarrow> json option \<Rightarrow> json option
     \<Rightarrow> MELDAction option" where
  "MELDAction_fields lx ty tg vl du pr =
     do {
       t \<leftarrow> literal_field ACTION_TYPES ty;
       g \<leftarrow> opt_str_field tg;
       v \<leftarrow> opt_str_field vl;
       d \<leftarrow> opt_free_float_field lx du;
       p \<leftarrow> opt_str_field pr;
       Some \<lparr>type = t, target = g, value' = v, duration = d, priority = p\<rparr>
     }"

definition MELDBehavior_fields ::
  "json option \<Rightarrow> json option \<Rightarrow> MELDAction list \<Rightarrow> MELDBehavior option" where
  "MELDBehavior_fields nm gl acts =
     do {
       n \<leftarrow> literal_field BEHAVIORS nm;
       g \<leftarrow> opt_str_field gl;
       Some \<lparr>name = n, goal = g, actions = acts\<rparr>
     }"

definition EmotionalState_fields ::
  "lax \<Rightarrow> json option \<Rightarrow> json option \<Rightarrow> json option \<Rightarrow> json option \<Rightarrow> json option
     \<Rightarrow> json option \<Rightarrow> EmotionalState option" where
  "EmotionalState_fields lx pr se it va ar st =
     do {
       p \<leftarrow> str_field pr;
       s \<leftarrow> opt_str_field se;
       i \<leftarrow> float_field lx 0 1 it;
       v \<leftarrow> float_field lx (- 1) 1 va;
       a \<leftarrow> float_field lx 0 1 ar;
       b \<leftarrow> opt_float_field lx 0 1 st;
       Some \<lparr>primary = p, secondary = s, intensity = i, valence = v, arousal = a,
             stability = b\<rparr>
     }"

definition MELDMessage_fields ::
  "lax \<Rightarrow> json option \<Rightarrow> json option \<Rightarrow> EmotionalState \<Rightarrow> json option \<Rightarrow> json option
     \<Rightarrow> MELDBehavior \<Rightarrow> json option \<Rightarrow> json option \<Rightarrow> MELDMessage option" where
  "MELDMessage_fields lx it pe es em re bh co md =
     do {
       i \<leftarrow> str_field it;
       p \<leftarrow> literal_field PERSONAS pe;
       e \<leftarrow> opt_str_field em;
       r \<leftarrow> str_field re;
       c \<leftarrow> float_field lx 0 1 co;
       m \<leftarrow> opt_dict_field md;
       Some \<lparr>intent = i, persona = p, emotional_state = es, emoji = e, response = r,
             behavior = bh, confidence = c, metadata = m\<rparr>
     }"

definition MELDAction_init ::
  "pydantic \<Rightarrow> json option \<Rightarrow> json option \<Rightarrow> json option \<Rightarrow> json option \<Rightarrow> json option
     \<Rightarrow> error + MELDAction" where
  "MELDAction_init lib ty tg vl du pr =
     validated (MELDAction_fields (python_mode lib) ty tg vl du pr)"

definition MELDBehavior_init ::
  "json option \<Rightarrow> json option \<Rightarrow> MELDAction list \<Rightarrow> error + MELDBehavior" where
  "MELDBehavior_init nm gl acts = validated (MELDBehavior_fields nm gl acts)"

definition EmotionalState_init ::
  "pydantic \<Rightarrow> json option \<Rightarrow> json option \<Rightarrow> json option \<Rightarrow> json option \<Rightarrow> json option
     \<Rightarrow> json option \<Rightarrow> error + EmotionalState" where
  "EmotionalState_init lib pr se it va ar st =
     validated (EmotionalState_fields (python_mode lib) pr se it va ar st)"

definition MELDMessage_init ::
  "pydantic \<Rightarrow> json option \<Rightarrow> json option \<Rightarrow> EmotionalState \<Rightarrow> json option \<Rightarrow> json option
     \<Rightarrow> MELDBehavior \<Rightarrow> json option \<Rightarrow> json option \<Rightarrow> error + MELDMessage" where
  "MELDMessage_init lib it pe es em re bh co md =
     validated (MELDMessage_fields (python_mode lib) it pe es em re bh co md)"

definition MELDAction_validate :: "lax \<Rightarrow> json \<Rightarrow> MELDAction option" where
  "MELDAction_validate lx j =
     (case j of
        JObj d \<Rightarrow>
          MELDAction_fields lx (map_of d ''type'') (map_of d ''target'') (map_of d ''value'')
            (map_of d ''duration'') (map_of d ''priority'')
      | _ \<Rightarrow> None)"

definition MELDBehavior_validate :: "lax \<Rightarrow> json \<Rightarrow> MELDBehavior option" where
  "MELDBehavior_validate lx j =
     (case j of
        JObj d \<Rightarrow>
          do {
            acts \<leftarrow> (case map_of d ''actions'' of
                       Some (JArr js) \<Rightarrow> those (map (MELDAction_validate lx) js)
                     | _ \<Rightarrow> None);
            MELDBehavior_fields (map_of d ''name'') (map_of d ''goal'') acts
          }
      | _ \<Rightarrow> None)"

definition EmotionalState_validate :: "lax \<Rightarrow> json \<Rightarrow> EmotionalState option" where
  "EmotionalState_validate lx j =
     (case j of
        JObj d \<Rightarrow>
          EmotionalState_fields lx (map_of d ''primary'') (map_of d ''secondary'')
            (map_of d ''intensity'') (map_of d ''valence'') (map_of d ''arousal'')
            (map_of d ''stability'')
      | _ \<Rightarrow> None)"

definition MELDMessage_validate :: "lax \<Rightarrow> json \<Rightarrow> MELDMessage option" where
  "MELDMessage_validate lx j =
     (case j of
        JObj d \<Rightarrow>
          do {
            es \<leftarrow> (case map_of d ''emotional_state'' of
                     Some e \<Rightarrow> EmotionalState_validate lx e
                   | None \<Rightarrow> None);
            bh \<leftarrow> (case map_of d ''behavior'' of
                     Some b \<Rightarrow> MELDBehavior_validate lx b
                   | None \<Rightarrow> None);
            MELDMessage_fields lx (map_of d ''intent'') (map_of d ''persona'') es
              (map_of d ''emoji'') (map_of d ''response'') bh (map_of d ''confidence'')
              (map_of d ''metadata'')
          }
      | _ \<Rightarrow> None)"

text \<open>
  A raw text is represented by what the JSON decoder makes of it: \<open>None\<close> when the text
  is not JSON, \<open>Some v\<close> when it decodes to \<open>v\<close>. \<^verbatim>\<open>MELDMessage.model_validate_json\<close>
  and \<^verbatim>\<open>json.loads\<close> read the same text.
\<close>

type_synonym raw = "json option"

definition model_validate_json :: "pydantic \<Rightarrow> raw \<Rightarrow> error + MELDMessage" where
  "model_validate_json lib meld_json =
     (case meld_json of None \<Rightarrow> Inl ValidationError
      | Some j \<Rightarrow> validated (MELDMessage_validate (json_mode lib) j))"

definition json_loads :: "raw \<Rightarrow> error + json" where
  "json_loads meld_json = (case meld_json of None \<Rightarrow> Inl JSONDecodeError | Some j \<Rightarrow> Inr j)"

section \<open>The processor\<close>

text \<open>
  One entry of \<^verbatim>\<open>interaction_history\<close> (a dict with these seven keys in the source), and
  the state of a \<^verbatim>\<open>MELDProcessor\<close>: the history, the four counters of
  \<^verbatim>\<open>performance_stats\<close>, and the two display fields. Python's integers are unbounded.
\<close>

record entry =
  entry_timestamp :: string
  entry_user_input :: string
  entry_persona :: string
  entry_behavior :: string
  entry_confidence :: real
  entry_processing_time :: real
  entry_success :: bool

record processor =
  interaction_history :: "entry list"
  successful_parses :: int
  fallbacks_used :: int
  total_requests :: int
  avg_confidence :: real
  last_processing_time :: real
  last_user_query :: string

definition MELDProcessor_init :: processor where
  "MELDProcessor_init =
     \<lparr>interaction_history = [], successful_parses = 0, fallbacks_used = 0,
      total_requests = 0, avg_confidence = 0, last_processing_time = 0,
      last_user_query = []\<rparr>"

text \<open>
  What one call of \<^verbatim>\<open>process_query\<close> observes of the world: whether the probe
  \<^verbatim>\<open>_check_ollama_connection\<close> answers (it returns \<^verbatim>\<open>False\<close> on any exception of its
  own), what steps 3 and 4 yield (the content text of the reply, or the exception raised
  on the way to it), the clock reading put into the entry, and the processing time
  measured. The request itself belongs to the world: \<^verbatim>\<open>_prepare_messages\<close> only joins
  the personas of the last three entries, which are strings, to the system prompt, and
  has no failing step. Console output and the display functions are left out.
\<close>

record env =
  reachable :: bool
  reply :: "error + raw"
  now :: string
  elapsed :: real

definition apostrophe :: char where
  "apostrophe = CHR 0x27"

definition ROBOT :: string where
  "ROBOT = [CHR 0xF0, CHR 0x9F, CHR 0xA4, CHR 0x96]"

definition SHIELD :: string where
  "SHIELD = [CHR 0xF0, CHR 0x9F, CHR 0x9B, CHR 0xA1, CHR 0xEF, CHR 0xB8, CHR 0x8F]"

definition PLUG :: string where
  "PLUG = [CHR 0xF0, CHR 0x9F, CHR 0x94, CHR 0x8C]"

subsection \<open>Partial reconstruction\<close>

text \<open>\<^verbatim>\<open>data.get(outer, {}).get(k, default)\<close>\<close>

definition nested_get :: "json \<Rightarrow> string \<Rightarrow> string \<Rightarrow> json \<Rightarrow> error + json" where
  "nested_get data outer k dflt =
     bind_exc (py_get data outer (JObj [])) (\<lambda>inner. py_get inner k dflt)"

text \<open>\<^verbatim>\<open>min(max(x, lo), hi)\<close>\<close>

definition clamp :: "json \<Rightarrow> real \<Rightarrow> real \<Rightarrow> error + json" where
  "clamp x lo hi = bind_exc (py_max x lo) (\<lambda>y. py_min y hi)"

text \<open>The \<^verbatim>\<open>MELDMessage(...)\<close> expression of \<^verbatim>\<open>_create_partial_meld\<close>, its arguments
  evaluated in the order they are written.\<close>

definition partial_message :: "pydantic \<Rightarrow> json \<Rightarrow> string \<Rightarrow> error + MELDMessage" where
  "partial_message lib data user_input =
     bind_exc (py_get data ''intent'' (JStr ''general_assistance'')) (\<lambda>a_intent.
     bind_exc (py_get data ''persona'' JNull) (\<lambda>p.
     bind_exc (if p \<in> set (map JStr PERSONAS)
               then py_get data ''persona'' (JStr ''Sage'')
               else Inr (JStr ''Sage'')) (\<lambda>a_persona.
     bind_exc (nested_get data ''emotional_state'' ''primary'' (JStr ''helpful'')) (\<lambda>a_primary.
     bind_exc (nested_get data ''emotional_state'' ''intensity'' (JNum 0.7)) (\<lambda>i.
     bind_exc (clamp i 0 1) (\<lambda>a_intensity.
     bind_exc (nested_get data ''emotional_state'' ''valence'' (JNum 0.5)) (\<lambda>v.
     bind_exc (clamp v (- 1) 1) (\<lambda>a_valence.
     bind_exc (nested_get data ''emotional_state'' ''arousal'' (JNum 0.5)) (\<lambda>a.
     bind_exc (clamp a 0 1) (\<lambda>a_arousal.
     bind_exc (EmotionalState_init lib (Some a_primary) None (Some a_intensity)
                 (Some a_valence) (Some a_arousal) None) (\<lambda>a_emotional_state.
     bind_exc (py_get data ''emoji'' (JStr ROBOT)) (\<lambda>a_emoji.
     bind_exc (py_get data ''response''
                 (JStr (''I understand you'' @ [apostrophe] @ ''re asking about: ''
                        @ user_input @ ''. Let me help you with that.''))) (\<lambda>a_response.
     bind_exc (nested_get data ''behavior'' ''name'' JNull) (\<lambda>n.
     bind_exc (if n \<notin> set (map JStr BEHAVIORS)
               then Inr (JStr ''acknowledge'')
               else nested_get data ''behavior'' ''name'' (JStr ''acknowledge'')) (\<lambda>a_name.
     bind_exc (nested_get data ''behavior'' ''goal'' (JStr ''Provide helpful assistance''))
       (\<lambda>a_goal.
     bind_exc (MELDAction_init lib (Some (JStr ''state'')) (Some (JStr ''assistance''))
                 (Some (JStr ''active'')) None None) (\<lambda>a_action.
     bind_exc (MELDBehavior_init (Some a_name) (Some a_goal) [a_action]) (\<lambda>a_behavior.
     bind_exc (py_get data ''confidence'' (JNum 0.6)) (\<lambda>c.
     bind_exc (clamp c 0 1) (\<lambda>a_confidence.
     MELDMessage_init lib (Some a_intent) (Some a_persona) a_emotional_state (Some a_emoji)
       (Some a_response) a_behavior (Some a_confidence)
       (Some (JObj [(''fallback_type'', JStr ''partial_extraction''),
                    (''original_data_quality'', JStr ''partial'')]))
     ))))))))))))))))))))"

definition create_partial_meld ::
  "pydantic \<Rightarrow> processor \<Rightarrow> json \<Rightarrow> string \<Rightarrow> processor \<times> (error + MELDMessage)" where
  "create_partial_meld lib self data user_input =
     (self\<lparr>fallbacks_used := fallbacks_used self + 1\<rparr>,
      partial_message lib data user_input)"

subsection \<open>Heuristic synthesis\<close>

text \<open>\<^verbatim>\<open>any(word in user_input.lower() for word in words)\<close>\<close>

definition any_word_in :: "string list \<Rightarrow> string \<Rightarrow> bool" where
  "any_word_in ws user_input = list_ex (\<lambda>word. str_in word (lower user_input)) ws"

definition create_intelligent_fallback ::
  "pydantic \<Rightarrow> processor \<Rightarrow> string \<Rightarrow> string \<Rightarrow> processor \<times> (error + MELDMessage)" where
  "create_intelligent_fallback lib self user_input error_msg =
     (let self' = self\<lparr>fallbacks_used := fallbacks_used self + 1\<rparr>;
          (a_intent, a_persona, behavior_name, emotion) =
            (if any_word_in [''analyze'', ''compare'', ''evaluate''] user_input
             then (''analysis_request'', ''Strategist'', ''analyze'', ''analytical'')
             else if any_word_in [''explore'', ''discover'', ''learn''] user_input
             then (''exploration_request'', ''Explorer'', ''explore'', ''curious'')
             else if any_word_in [''build'', ''create'', ''make''] user_input
             then (''creation_request'', ''Builder'', ''guide'', ''practical'')
             else (''general_assistance'', ''Sage'', ''acknowledge'', ''helpful''))
      in (self',
          bind_exc (EmotionalState_init lib (Some (JStr emotion)) None (Some (JNum 0.7))
                      (Some (JNum 0.5)) (Some (JNum 0.4)) (Some (JNum 0.8))) (\<lambda>a_emotional_state.
          bind_exc (MELDAction_init lib (Some (JStr ''state'')) (Some (JStr ''safe_mode''))
                      (Some (JStr ''active'')) None None) (\<lambda>action1.
          bind_exc (MELDAction_init lib (Some (JStr ''cognitive_shift''))
                      (Some (JStr ''fallback_processing'')) (Some (JStr ''enabled'')) None None)
            (\<lambda>action2.
          bind_exc (MELDBehavior_init (Some (JStr behavior_name))
                      (Some (JStr ''Provide reliable assistance despite processing limitations''))
                      [action1, action2]) (\<lambda>a_behavior.
          MELDMessage_init lib (Some (JStr a_intent)) (Some (JStr a_persona)) a_emotional_state
            (Some (JStr SHIELD))
            (Some (JStr (''I encountered a processing issue, but I can still help you with ''
                         @ [apostrophe] @ user_input @ [apostrophe]
                         @ ''. While my cognitive control system had difficulties, I''
                         @ [apostrophe] @ ''m functioning in safe mode and ready to assist.'')))
            a_behavior (Some (JNum 0.6))
            (Some (JObj [(''fallback_type'', JStr ''intelligent_analysis''),
                         (''error'', JStr error_msg),
                         (''processing_mode'', JStr ''safe_fallback'')]))
          ))))))"

definition create_connection_fallback :: "pydantic \<Rightarrow> string \<Rightarrow> error + MELDMessage" where
  "create_connection_fallback lib user_input =
     bind_exc (EmotionalState_init lib (Some (JStr ''concerned'')) (Some (JStr ''helpful''))
                 (Some (JNum 0.6)) (Some (JNum (- 0.2))) (Some (JNum 0.3)) None)
       (\<lambda>a_emotional_state.
     bind_exc (MELDAction_init lib (Some (JStr ''state'')) (Some (JStr ''connection''))
                 (Some (JStr ''error'')) None None) (\<lambda>action1.
     bind_exc (MELDAction_init lib (Some (JStr ''visual'')) (Some (JStr ''status''))
                 (Some (JStr ''warning'')) None None) (\<lambda>action2.
     bind_exc (MELDBehavior_init (Some (JStr ''acknowledge''))
                 (Some (JStr ''Inform user of connection issue and provide guidance''))
                 [action1, action2]) (\<lambda>a_behavior.
     MELDMessage_init lib (Some (JStr ''connection_error'')) (Some (JStr ''Sage''))
       a_emotional_state (Some (JStr PLUG))
       (Some (JStr (''I'' @ [apostrophe]
                    @ ''m unable to connect to the local AI model (Ollama) to process your request about ''
                    @ [apostrophe] @ user_input @ [apostrophe]
                    @ ''. Please ensure Ollama is running with '' @ [apostrophe] @ ''ollama serve''
                    @ [apostrophe] @ '' and try again.'')))
       a_behavior (Some (JNum 0.95))
       (Some (JObj [(''error_type'', JStr ''connection_failure''),
                    (''suggested_action'', JStr ''restart_ollama'')]))
     ))))"

subsection \<open>Parsing, recording, and the pipeline\<close>

definition parse_meld_response ::
  "pydantic \<Rightarrow> processor \<Rightarrow> raw \<Rightarrow> string \<Rightarrow> processor \<times> (error + MELDMessage)" where
  "parse_meld_response lib self meld_json user_input =
     (case model_validate_json lib meld_json of
        Inr meld_message \<Rightarrow>
          (self\<lparr>successful_parses := successful_parses self + 1\<rparr>, Inr meld_message)
      | Inl e \<Rightarrow>
          if e = ValidationError then
            (case json_loads meld_json of
               Inl e2 \<Rightarrow>
                 create_intelligent_fallback lib self user_input
                   (''JSON parsing failed: '' @ str_exc e)
             | Inr partial_data \<Rightarrow>
                 (case create_partial_meld lib self partial_data user_input of
                    (self', Inr meld_message) \<Rightarrow> (self', Inr meld_message)
                  | (self', Inl e2) \<Rightarrow>
                      create_intelligent_fallback lib self' user_input
                        (''JSON parsing failed: '' @ str_exc e)))
          else (self, Inl e))"

definition record_interaction ::
  "processor \<Rightarrow> string \<Rightarrow> MELDMessage \<Rightarrow> string \<Rightarrow> real \<Rightarrow> bool \<Rightarrow> processor" where
  "record_interaction self user_input meld_response ts processing_time success =
     (let interaction =
            \<lparr>entry_timestamp = ts,
             entry_user_input = user_input,
             entry_persona = persona meld_response,
             entry_behavior = name (behavior meld_response),
             entry_confidence = confidence meld_response,
             entry_processing_time = processing_time,
             entry_success = success\<rparr>;
          history = interaction_history self @ [interaction];
          confidences = map entry_confidence history
      in self\<lparr>interaction_history := history,
              avg_confidence := sum_list confidences / real (length confidences),
              last_processing_time := processing_time,
              last_user_query := user_input\<rparr>)"

definition process_query ::
  "pydantic \<Rightarrow> processor \<Rightarrow> string \<Rightarrow> env \<Rightarrow> processor \<times> (error + MELDMessage)" where
  "process_query lib self user_input w =
     (let self1 = self\<lparr>total_requests := total_requests self + 1\<rparr> in
      if \<not> reachable w then (self1, create_connection_fallback lib user_input)
      else
        (case (case reply w of
                 Inl e \<Rightarrow> (self1, Inl e)
               | Inr meld_json \<Rightarrow>
                   (case parse_meld_response lib self1 meld_json user_input of
                      (self2, Inl e) \<Rightarrow> (self2, Inl e)
                    | (self2, Inr meld_message) \<Rightarrow>
                        (record_interaction self2 user_input meld_message (now w) (elapsed w)
                           True,
                         Inr meld_message)))
         of
           (self3, Inr meld_message) \<Rightarrow> (self3, Inr meld_message)
         | (self3, Inl e) \<Rightarrow>
             (case create_intelligent_fallback lib self3 user_input (str_exc e) of
                (self4, Inl e2) \<Rightarrow> (self4, Inl e2)
              | (self4, Inr fallback) \<Rightarrow>
                  (record_interaction self4 user_input fallback (now w) (elapsed w) False,
                   Inr fallback))))"

text \<open>The figure \<^verbatim>\<open>show_performance_stats\<close> prints as the success rate.\<close>

definition success_rate :: "processor \<Rightarrow> real" where
  "success_rate self =
     (real_of_int (total_requests self - fallbacks_used self)
        / real_of_int (max (total_requests self) 1)) * 100"

text \<open>A session: the queries are processed one after the other on the same processor.\<close>

fun run :: "pydantic \<Rightarrow> processor \<Rightarrow> (string \<times> env) list \<Rightarrow> processor" where
  "run lib self [] = self"
| "run lib self ((user_input, w) # rest) =
     run lib (fst (process_query lib self user_input w)) rest"

section \<open>Notions of the specification\<close>

text \<open>
  The properties below are stated with these notions. None of them is part of the
  program; each is a way of speaking about it.
\<close>

text \<open>Every numeric field within its declared range, persona and behaviour name within
  their enumerations.\<close>

definition in_declared_ranges :: "MELDMessage \<Rightarrow> bool" where
  "in_declared_ranges m =
     (0 \<le> intensity (emotional_state m) \<and> intensity (emotional_state m) \<le> 1
      \<and> - 1 \<le> valence (emotional_state m) \<and> valence (emotional_state m) \<le> 1
      \<and> 0 \<le> arousal (emotional_state m) \<and> arousal (emotional_state m) \<le> 1
      \<and> (case stability (emotional_state m) of None \<Rightarrow> True | Some s \<Rightarrow> 0 \<le> s \<and> s \<le> 1)
      \<and> 0 \<le> confidence m \<and> confidence m \<le> 1
      \<and> persona m \<in> set PERSONAS
      \<and> name (behavior m) \<in> set BEHAVIORS)"

text \<open>The query was answered on the strict path: the probe succeeded, the dispatch
  returned a text, and the text validated against the schema.\<close>

definition validator_path :: "pydantic \<Rightarrow> env \<Rightarrow> bool" where
  "validator_path lib w =
     (reachable w \<and>
      (case reply w of
         Inl e \<Rightarrow> False
       | Inr body \<Rightarrow> (case model_validate_json lib body of Inl e \<Rightarrow> False | Inr m \<Rightarrow> True)))"

text \<open>Partial reconstruction was attempted for the query and raised.\<close>

definition partial_raises :: "pydantic \<Rightarrow> string \<Rightarrow> env \<Rightarrow> bool" where
  "partial_raises lib user_input w =
     (reachable w \<and>
      (case reply w of
         Inr (Some j) \<Rightarrow>
           (case model_validate_json lib (Some j) of
              Inr m \<Rightarrow> False
            | Inl e \<Rightarrow> (case partial_message lib j user_input of Inl e2 \<Rightarrow> True | Inr m \<Rightarrow> False))
       | _ \<Rightarrow> False))"

text \<open>The record carries a metadata mapping with the key \<^verbatim>\<open>fallback_type\<close>.\<close>

definition has_fallback_type :: "MELDMessage \<Rightarrow> bool" where
  "has_fallback_type m =
     (case metadata m of None \<Rightarrow> False | Some md \<Rightarrow> map_of md ''fallback_type'' \<noteq> None)"

text \<open>
  A decoded value on which partial reconstruction reads every member at a type it can
  use: an object whose \<^verbatim>\<open>intent\<close> and \<^verbatim>\<open>response\<close>, if present, are strings, whose
  \<^verbatim>\<open>emoji\<close>, if present, is a string or null, whose \<^verbatim>\<open>confidence\<close>, if present, is a
  number, whose \<^verbatim>\<open>emotional_state\<close>, if present, is an object with a string
  \<^verbatim>\<open>primary\<close> and numeric \<^verbatim>\<open>intensity\<close>, \<^verbatim>\<open>valence\<close> and \<^verbatim>\<open>arousal\<close> where these are
  present, and whose \<^verbatim>\<open>behavior\<close>, if present, is an object whose \<^verbatim>\<open>goal\<close>, if present,
  is a string or null. \<^verbatim>\<open>persona\<close> and the behaviour's \<^verbatim>\<open>name\<close> and \<^verbatim>\<open>actions\<close> may be
  anything.
\<close>

definition absent_or :: "(json \<Rightarrow> bool) \<Rightarrow> json option \<Rightarrow> bool" where
  "absent_or P v = (case v of None \<Rightarrow> True | Some x \<Rightarrow> P x)"

fun is_str :: "json \<Rightarrow> bool" where
  "is_str (JStr s) = True"
| "is_str _ = False"

fun is_num :: "json \<Rightarrow> bool" where
  "is_num (JNum r) = True"
| "is_num _ = False"

fun is_str_or_null :: "json \<Rightarrow> bool" where
  "is_str_or_null (JStr s) = True"
| "is_str_or_null JNull = True"
| "is_str_or_null _ = False"

fun emotional_part :: "json \<Rightarrow> bool" where
  "emotional_part (JObj e) =
     (absent_or is_str (map_of e ''primary'') \<and> absent_or is_num (map_of e ''intensity'')
      \<and> absent_or is_num (map_of e ''valence'') \<and> absent_or is_num (map_of e ''arousal''))"
| "emotional_part _ = False"

fun behavior_part :: "json \<Rightarrow> bool" where
  "behavior_part (JObj b) = absent_or is_str_or_null (map_of b ''goal'')"
| "behavior_part _ = False"

fun reconstructible :: "json \<Rightarrow> bool" where
  "reconstructible (JObj d) =
     (absent_or is_str (map_of d ''intent'')
      \<and> absent_or emotional_part (map_of d ''emotional_state'')
      \<and> absent_or is_str_or_null (map_of d ''emoji'')
      \<and> absent_or is_str (map_of d ''response'')
      \<and> absent_or behavior_part (map_of d ''behavior'')
      \<and> absent_or is_num (map_of d ''confidence''))"
| "reconstructible _ = False"

text \<open>The arithmetic mean, and the statistics agreeing with the history: the average
  confidence is the mean of the recorded confidences, and 0.0 while nothing is recorded.\<close>

definition mean :: "real list \<Rightarrow> real" where
  "mean cs = sum_list cs / real (length cs)"

definition statistics_consistent :: "processor \<Rightarrow> bool" where
  "statistics_consistent s =
     (avg_confidence s =
        (if interaction_history s = [] then 0
         else mean (map entry_confidence (interaction_history s))))"

definition no_reconstruction_raised :: "pydantic \<Rightarrow> (string \<times> env) list \<Rightarrow> bool" where
  "no_reconstruction_raised lib qs = list_all (\<lambda>(q, w). \<not> partial_raises lib q w) qs"





section \<open>Example inputs\<close>

text \<open>Three readings of the world: the transport unreachable, the dispatch returning a
  given text, and the dispatch timing out.\<close>

definition offline :: env where
  "offline = \<lparr>reachable = False, reply = Inl (RequestException ''connection refused''),
               now = ''2025-01-01T00:00:00'', elapsed = 0.01\<rparr>"

definition replying :: "raw \<Rightarrow> env" where
  "replying meld_json = \<lparr>reachable = True, reply = Inr meld_json,
               now = ''2025-01-01T00:00:00'', elapsed = 1.5\<rparr>"

definition timing_out :: env where
  "timing_out = \<lparr>reachable = True, reply = Inl (RequestException ''read timed out''),
               now = ''2025-01-01T00:00:00'', elapsed = 45\<rparr>"

text \<open>A reply that satisfies the schema and whose own metadata has the key
  \<^verbatim>\<open>fallback_type\<close>.\<close>

definition valid_with_marker :: json where
  "valid_with_marker =
     JObj [(''intent'', JStr ''seek_clarity''),
           (''persona'', JStr ''Sage''),
           (''emotional_state'',
              JObj [(''primary'', JStr ''calm''), (''intensity'', JNum 0.5),
                    (''valence'', JNum 0.5), (''arousal'', JNum 0.5)]),
           (''response'', JStr ''ok''),
           (''behavior'', JObj [(''name'', JStr ''guide''), (''actions'', JArr [])]),
           (''confidence'', JNum 0.9),
           (''metadata'', JObj [(''fallback_type'', JStr ''none'')])]"

section \<open>Basic facts\<close>

lemma bind_exc_simps:
  "bind_exc (Inl e) f = Inl e"
  "bind_exc (Inr x) f = f x"
  by (simp_all add: bind_exc_def)

lemma bind_exc_eq_Inr: "(bind_exc r f = Inr y) = (\<exists>x. r = Inr x \<and> f x = Inr y)"
  by (cases r) (simp_all add: bind_exc_def)

lemma validated_eq_Inr: "(validated r = Inr x) = (r = Some x)"
  by (cases r) (simp_all add: validated_def)

lemma validated_eq_Inl: "(validated r = Inl e) = (r = None \<and> e = ValidationError)"
  by (cases r) (auto simp add: validated_def)

subsection \<open>Field validation\<close>

lemma float_field_range: "float_field lx lo hi v = Some r \<Longrightarrow> lo \<le> r \<and> r \<le> hi"
  by (auto simp: float_field_def split: option.splits if_splits)

lemma opt_float_field_range: "opt_float_field lx lo hi v = Some (Some r) \<Longrightarrow> lo \<le> r \<and> r \<le> hi"
  by (auto simp: opt_float_field_def dest: float_field_range split: option.splits json.splits)

lemma literal_field_mem: "literal_field allowed v = Some s \<Longrightarrow> s \<in> set allowed"
  by (auto simp: literal_field_def split: option.splits json.splits if_splits)

lemma float_field_num: "lo \<le> r \<Longrightarrow> r \<le> hi \<Longrightarrow> float_field lx lo hi (Some (JNum r)) = Some r"
  by (simp add: float_field_def as_float_def)

lemma opt_float_field_num:
  "lo \<le> r \<Longrightarrow> r \<le> hi \<Longrightarrow> opt_float_field lx lo hi (Some (JNum r)) = Some (Some r)"
  by (simp add: opt_float_field_def float_field_num)

lemma literal_field_in: "s \<in> set allowed \<Longrightarrow> literal_field allowed (Some (JStr s)) = Some s"
  by (simp add: literal_field_def)

lemma str_field_eq: "str_field v = Some s \<Longrightarrow> v = Some (JStr s)"
  by (auto simp: str_field_def split: option.splits json.splits)

lemma literal_field_eq: "literal_field allowed v = Some s \<Longrightarrow> v = Some (JStr s)"
  by (auto simp: literal_field_def split: option.splits json.splits if_splits)

lemma EmotionalState_fields_ranges:
  assumes "EmotionalState_fields lx pr se it va ar st = Some es"
  shows "0 \<le> intensity es \<and> intensity es \<le> 1 \<and> - 1 \<le> valence es \<and> valence es \<le> 1
         \<and> 0 \<le> arousal es \<and> arousal es \<le> 1
         \<and> (case stability es of None \<Rightarrow> True | Some s \<Rightarrow> 0 \<le> s \<and> s \<le> 1)"
  using assms
  by (auto simp: EmotionalState_fields_def bind_eq_Some_conv
           dest!: float_field_range opt_float_field_range split: option.splits)

lemma MELDBehavior_fields_name:
  "MELDBehavior_fields nm gl acts = Some b \<Longrightarrow> name b \<in> set BEHAVIORS \<and> actions b = acts"
  by (auto simp: MELDBehavior_fields_def bind_eq_Some_conv dest!: literal_field_mem)

lemma MELDMessage_fields_props:
  assumes "MELDMessage_fields lx it pe es em re bh co md = Some m"
  shows "persona m \<in> set PERSONAS \<and> 0 \<le> confidence m \<and> confidence m \<le> 1
         \<and> emotional_state m = es \<and> behavior m = bh
         \<and> opt_dict_field md = Some (metadata m)"
  using assms
  by (auto simp: MELDMessage_fields_def bind_eq_Some_conv
           dest!: float_field_range literal_field_mem)

lemma MELDMessage_validate_ranges:
  assumes "MELDMessage_validate lx j = Some m"
  shows "in_declared_ranges m"
proof -
  from assms obtain d where j: "j = JObj d"
    by (cases j) (simp_all add: MELDMessage_validate_def)
  from assms j obtain e b es bh where
    es: "EmotionalState_validate lx e = Some es" and
    bh: "MELDBehavior_validate lx b = Some bh" and
    m: "MELDMessage_fields lx (map_of d ''intent'') (map_of d ''persona'') es
          (map_of d ''emoji'') (map_of d ''response'') bh (map_of d ''confidence'')
          (map_of d ''metadata'') = Some m"
    by (auto simp: MELDMessage_validate_def bind_eq_Some_conv split: option.splits)
  from es have r1: "0 \<le> intensity es \<and> intensity es \<le> 1 \<and> - 1 \<le> valence es \<and> valence es \<le> 1
         \<and> 0 \<le> arousal es \<and> arousal es \<le> 1
         \<and> (case stability es of None \<Rightarrow> True | Some s \<Rightarrow> 0 \<le> s \<and> s \<le> 1)"
    by (cases e) (auto simp: EmotionalState_validate_def dest: EmotionalState_fields_ranges)
  from bh have r2: "name bh \<in> set BEHAVIORS"
    by (cases b) (auto simp: MELDBehavior_validate_def bind_eq_Some_conv
          dest: MELDBehavior_fields_name split: option.splits)
  from MELDMessage_fields_props[OF m] r1 r2 show ?thesis
    by (simp add: in_declared_ranges_def)
qed

subsection \<open>Instantiating the model classes\<close>

lemma MELDAction_init_const:
  "t \<in> set ACTION_TYPES \<Longrightarrow>
   MELDAction_init lib (Some (JStr t)) (Some (JStr g)) (Some (JStr v)) None None =
     Inr \<lparr>type = t, target = Some g, value' = Some v, duration = None, priority = None\<rparr>"
  by (simp add: MELDAction_init_def MELDAction_fields_def validated_def literal_field_in
        opt_str_field_def opt_free_float_field_def)

lemma EmotionalState_init_num:
  "0 \<le> i \<Longrightarrow> i \<le> 1 \<Longrightarrow> - 1 \<le> v \<Longrightarrow> v \<le> 1 \<Longrightarrow> 0 \<le> a \<Longrightarrow> a \<le> 1 \<Longrightarrow>
   opt_str_field se = Some s \<Longrightarrow> opt_float_field (python_mode lib) 0 1 st = Some b \<Longrightarrow>
   EmotionalState_init lib (Some (JStr p)) se (Some (JNum i)) (Some (JNum v)) (Some (JNum a)) st =
     Inr \<lparr>primary = p, secondary = s, intensity = i, valence = v, arousal = a, stability = b\<rparr>"
  by (simp add: EmotionalState_init_def EmotionalState_fields_def validated_def str_field_def
        float_field_num)

lemma MELDBehavior_init_const:
  "n \<in> set BEHAVIORS \<Longrightarrow>
   MELDBehavior_init (Some (JStr n)) (Some (JStr g)) acts =
     Inr \<lparr>name = n, goal = Some g, actions = acts\<rparr>"
  by (simp add: MELDBehavior_init_def MELDBehavior_fields_def validated_def literal_field_in
        opt_str_field_def)

lemma MELDBehavior_init_gen:
  "n \<in> set BEHAVIORS \<Longrightarrow> opt_str_field (Some g) = Some r \<Longrightarrow>
   MELDBehavior_init (Some (JStr n)) (Some g) acts =
     Inr \<lparr>name = n, goal = r, actions = acts\<rparr>"
  by (simp add: MELDBehavior_init_def MELDBehavior_fields_def validated_def literal_field_in)

lemma MELDMessage_init_const:
  "p \<in> set PERSONAS \<Longrightarrow> 0 \<le> c \<Longrightarrow> c \<le> 1 \<Longrightarrow>
   MELDMessage_init lib (Some (JStr i)) (Some (JStr p)) es (Some (JStr e)) (Some (JStr r)) bh
       (Some (JNum c)) (Some (JObj md)) =
     Inr \<lparr>intent = i, persona = p, emotional_state = es, emoji = Some e, response = r,
          behavior = bh, confidence = c, metadata = Some md\<rparr>"
  by (simp add: MELDMessage_init_def MELDMessage_fields_def validated_def literal_field_in
        str_field_def opt_str_field_def float_field_num opt_dict_field_def)

lemma MELDMessage_init_gen:
  "p \<in> set PERSONAS \<Longrightarrow> 0 \<le> c \<Longrightarrow> c \<le> 1 \<Longrightarrow> opt_str_field (Some e) = Some e' \<Longrightarrow>
   MELDMessage_init lib (Some (JStr i)) (Some (JStr p)) es (Some e) (Some (JStr r)) bh
       (Some (JNum c)) (Some (JObj md)) =
     Inr \<lparr>intent = i, persona = p, emotional_state = es, emoji = e', response = r,
          behavior = bh, confidence = c, metadata = Some md\<rparr>"
  by (simp add: MELDMessage_init_def MELDMessage_fields_def validated_def literal_field_in
        str_field_def float_field_num opt_dict_field_def)

subsection \<open>The two synthesised records\<close>

text \<open>Both constructions pass validation for every query text, so neither can raise.\<close>

lemma create_connection_fallback_eq:
  "create_connection_fallback lib user_input =
     Inr \<lparr>intent = ''connection_error'', persona = ''Sage'',
          emotional_state =
            \<lparr>primary = ''concerned'', secondary = Some ''helpful'', intensity = 0.6,
             valence = - 0.2, arousal = 0.3, stability = None\<rparr>,
          emoji = Some PLUG,
          response = ''I'' @ [apostrophe]
                    @ ''m unable to connect to the local AI model (Ollama) to process your request about ''
                    @ [apostrophe] @ user_input @ [apostrophe]
                    @ ''. Please ensure Ollama is running with '' @ [apostrophe] @ ''ollama serve''
                    @ [apostrophe] @ '' and try again.'',
          behavior =
            \<lparr>name = ''acknowledge'',
             goal = Some ''Inform user of connection issue and provide guidance'',
             actions =
               [\<lparr>type = ''state'', target = Some ''connection'', value' = Some ''error'',
                 duration = None, priority = None\<rparr>,
                \<lparr>type = ''visual'', target = Some ''status'', value' = Some ''warning'',
                 duration = None, priority = None\<rparr>]\<rparr>,
          confidence = 0.95,
          metadata = Some [(''error_type'', JStr ''connection_failure''),
                           (''suggested_action'', JStr ''restart_ollama'')]\<rparr>"
  unfolding create_connection_fallback_def
  by (simp add: bind_exc_simps EmotionalState_init_num MELDBehavior_init_const
        MELDAction_init_const MELDMessage_init_const opt_str_field_def opt_float_field_def
        ACTION_TYPES_def BEHAVIORS_def PERSONAS_def)

lemma create_intelligent_fallback_eq:
  "create_intelligent_fallback lib self user_input error_msg =
     (self\<lparr>fallbacks_used := fallbacks_used self + 1\<rparr>,
      Inr \<lparr>intent =
             (if any_word_in [''analyze'', ''compare'', ''evaluate''] user_input
              then ''analysis_request''
              else if any_word_in [''explore'', ''discover'', ''learn''] user_input
              then ''exploration_request''
              else if any_word_in [''build'', ''create'', ''make''] user_input
              then ''creation_request'' else ''general_assistance''),
           persona =
             (if any_word_in [''analyze'', ''compare'', ''evaluate''] user_input
              then ''Strategist''
              else if any_word_in [''explore'', ''discover'', ''learn''] user_input
              then ''Explorer''
              else if any_word_in [''build'', ''create'', ''make''] user_input
              then ''Builder'' else ''Sage''),
           emotional_state =
             \<lparr>primary =
                (if any_word_in [''analyze'', ''compare'', ''evaluate''] user_input
                 then ''analytical''
                 else if any_word_in [''explore'', ''discover'', ''learn''] user_input
                 then ''curious''
                 else if any_word_in [''build'', ''create'', ''make''] user_input
                 then ''practical'' else ''helpful''),
              secondary = None, intensity = 0.7, valence = 0.5, arousal = 0.4,
              stability = Some 0.8\<rparr>,
           emoji = Some SHIELD,
           response = ''I encountered a processing issue, but I can still help you with ''
                         @ [apostrophe] @ user_input @ [apostrophe]
                         @ ''. While my cognitive control system had difficulties, I''
                         @ [apostrophe] @ ''m functioning in safe mode and ready to assist.'',
           behavior =
             \<lparr>name =
                (if any_word_in [''analyze'', ''compare'', ''evaluate''] user_input
                 then ''analyze''
                 else if any_word_in [''explore'', ''discover'', ''learn''] user_input
                 then ''explore''
                 else if any_word_in [''build'', ''create'', ''make''] user_input
                 then ''guide'' else ''acknowledge''),
              goal = Some ''Provide reliable assistance despite processing limitations'',
              actions =
                [\<lparr>type = ''state'', target = Some ''safe_mode'', value' = Some ''active'',
                  duration = None, priority = None\<rparr>,
                 \<lparr>type = ''cognitive_shift'', target = Some ''fallback_processing'',
                  value' = Some ''enabled'', duration = None, priority = None\<rparr>]\<rparr>,
           confidence = 0.6,
           metadata = Some [(''fallback_type'', JStr ''intelligent_analysis''),
                            (''error'', JStr error_msg),
                            (''processing_mode'', JStr ''safe_fallback'')]\<rparr>)"
proof -
  consider (a) "any_word_in [''analyze'', ''compare'', ''evaluate''] user_input"
    | (b) "\<not> any_word_in [''analyze'', ''compare'', ''evaluate''] user_input"
          "any_word_in [''explore'', ''discover'', ''learn''] user_input"
    | (c) "\<not> any_word_in [''analyze'', ''compare'', ''evaluate''] user_input"
          "\<not> any_word_in [''explore'', ''discover'', ''learn''] user_input"
          "any_word_in [''build'', ''create'', ''make''] user_input"
    | (d) "\<not> any_word_in [''analyze'', ''compare'', ''evaluate''] user_input"
          "\<not> any_word_in [''explore'', ''discover'', ''learn''] user_input"
          "\<not> any_word_in [''build'', ''create'', ''make''] user_input"
    by blast
  then show ?thesis
  proof cases
    case a
    then show ?thesis
      unfolding create_intelligent_fallback_def Let_def
      by (simp add: bind_exc_simps EmotionalState_init_num opt_float_field_num
            MELDBehavior_init_const MELDAction_init_const MELDMessage_init_const
            opt_str_field_def ACTION_TYPES_def BEHAVIORS_def PERSONAS_def)
  next
    case b
    then show ?thesis
      unfolding create_intelligent_fallback_def Let_def
      by (simp add: bind_exc_simps EmotionalState_init_num opt_float_field_num
            MELDBehavior_init_const MELDAction_init_const MELDMessage_init_const
            opt_str_field_def ACTION_TYPES_def BEHAVIORS_def PERSONAS_def)
  next
    case c
    then show ?thesis
      unfolding create_intelligent_fallback_def Let_def
      by (simp add: bind_exc_simps EmotionalState_init_num opt_float_field_num
            MELDBehavior_init_const MELDAction_init_const MELDMessage_init_const
            opt_str_field_def ACTION_TYPES_def BEHAVIORS_def PERSONAS_def)
  next
    case d
    then show ?thesis
      unfolding create_intelligent_fallback_def Let_def
      by (simp add: bind_exc_simps EmotionalState_init_num opt_float_field_num
            MELDBehavior_init_const MELDAction_init_const MELDMessage_init_const
            opt_str_field_def ACTION_TYPES_def BEHAVIORS_def PERSONAS_def)
  qed
qed

lemma create_intelligent_fallback_ok:
  obtains m where
    "create_intelligent_fallback lib s user_input msg =
       (s\<lparr>fallbacks_used := fallbacks_used s + 1\<rparr>, Inr m)"
    "in_declared_ranges m"
    "confidence m = 0.6"
    "metadata m = Some [(''fallback_type'', JStr ''intelligent_analysis''),
                        (''error'', JStr msg), (''processing_mode'', JStr ''safe_fallback'')]"
proof -
  obtain m where m: "create_intelligent_fallback lib s user_input msg =
       (s\<lparr>fallbacks_used := fallbacks_used s + 1\<rparr>, Inr m)"
    by (simp add: create_intelligent_fallback_eq)
  from m have eq: "Inr m = snd (create_intelligent_fallback lib s user_input msg)"
    by simp
  have "in_declared_ranges m" "confidence m = 0.6"
    "metadata m = Some [(''fallback_type'', JStr ''intelligent_analysis''),
                        (''error'', JStr msg), (''processing_mode'', JStr ''safe_fallback'')]"
    using eq unfolding create_intelligent_fallback_eq
    by (auto simp: in_declared_ranges_def PERSONAS_def BEHAVIORS_def)
  with m show ?thesis using that by blast
qed

lemma create_connection_fallback_ok:
  obtains m where
    "create_connection_fallback lib user_input = Inr m"
    "in_declared_ranges m"
    "confidence m = 0.95"
    "intent m = ''connection_error''"
    "metadata m = Some [(''error_type'', JStr ''connection_failure''),
                        (''suggested_action'', JStr ''restart_ollama'')]"
proof -
  obtain m where m: "create_connection_fallback lib user_input = Inr m"
    by (simp add: create_connection_fallback_eq)
  have "in_declared_ranges m" "confidence m = 0.95" "intent m = ''connection_error''"
    "metadata m = Some [(''error_type'', JStr ''connection_failure''),
                        (''suggested_action'', JStr ''restart_ollama'')]"
    using m unfolding create_connection_fallback_eq
    by (auto simp: in_declared_ranges_def PERSONAS_def BEHAVIORS_def)
  with m show ?thesis using that by blast
qed

subsection \<open>Partial reconstruction\<close>

lemma partial_message_parts:
  assumes "partial_message lib data user_input = Inr m"
  obtains pr i0 it v0 va a0 ar nm gl es bh a_intent a_persona a_emoji a_response a_confidence
  where
    "nested_get data ''emotional_state'' ''primary'' (JStr ''helpful'') = Inr pr"
    "nested_get data ''emotional_state'' ''intensity'' (JNum 0.7) = Inr i0"
    "clamp i0 0 1 = Inr it"
    "nested_get data ''emotional_state'' ''valence'' (JNum 0.5) = Inr v0"
    "clamp v0 (- 1) 1 = Inr va"
    "nested_get data ''emotional_state'' ''arousal'' (JNum 0.5) = Inr a0"
    "clamp a0 0 1 = Inr ar"
    "EmotionalState_fields (python_mode lib) (Some pr) None (Some it) (Some va) (Some ar) None
       = Some es"
    "MELDBehavior_fields (Some nm) (Some gl)
       [\<lparr>type = ''state'', target = Some ''assistance'', value' = Some ''active'',
         duration = None, priority = None\<rparr>] = Some bh"
    "MELDMessage_fields (python_mode lib) (Some a_intent) (Some a_persona) es (Some a_emoji)
       (Some a_response) bh (Some a_confidence)
       (Some (JObj [(''fallback_type'', JStr ''partial_extraction''),
                    (''original_data_quality'', JStr ''partial'')])) = Some m"
proof -
  have act: "MELDAction_init lib (Some (JStr ''state'')) (Some (JStr ''assistance''))
                 (Some (JStr ''active'')) None None =
        Inr \<lparr>type = ''state'', target = Some ''assistance'', value' = Some ''active'',
         duration = None, priority = None\<rparr>"
    by (simp add: MELDAction_init_const ACTION_TYPES_def)
  from assms show ?thesis
    unfolding partial_message_def act bind_exc_eq_Inr EmotionalState_init_def
      MELDBehavior_init_def MELDMessage_init_def validated_eq_Inr
    using that by blast
qed

lemma partial_message_Inr:
  assumes "partial_message lib data user_input = Inr m"
  shows "in_declared_ranges m"
    and "actions (behavior m) =
           [\<lparr>type = ''state'', target = Some ''assistance'', value' = Some ''active'',
             duration = None, priority = None\<rparr>]"
    and "metadata m = Some [(''fallback_type'', JStr ''partial_extraction''),
                            (''original_data_quality'', JStr ''partial'')]"
    and "secondary (emotional_state m) = None"
    and "stability (emotional_state m) = None"
proof -
  from assms obtain pr it va ar nm gl es bh a_intent a_persona a_emoji a_response a_confidence
    where
    es: "EmotionalState_fields (python_mode lib) (Some pr) None (Some it) (Some va) (Some ar) None
       = Some es" and
    bh: "MELDBehavior_fields (Some nm) (Some gl)
       [\<lparr>type = ''state'', target = Some ''assistance'', value' = Some ''active'',
         duration = None, priority = None\<rparr>] = Some bh" and
    m: "MELDMessage_fields (python_mode lib) (Some a_intent) (Some a_persona) es (Some a_emoji)
       (Some a_response) bh (Some a_confidence)
       (Some (JObj [(''fallback_type'', JStr ''partial_extraction''),
                    (''original_data_quality'', JStr ''partial'')])) = Some m"
    by (rule partial_message_parts) blast
  note mp = MELDMessage_fields_props [OF m]
  note bp = MELDBehavior_fields_name [OF bh]
  note ep = EmotionalState_fields_ranges [OF es]
  from mp bp ep show "in_declared_ranges m"
    by (simp add: in_declared_ranges_def)
  from mp bp show "actions (behavior m) =
           [\<lparr>type = ''state'', target = Some ''assistance'', value' = Some ''active'',
             duration = None, priority = None\<rparr>]"
    by simp
  from mp show "metadata m = Some [(''fallback_type'', JStr ''partial_extraction''),
                            (''original_data_quality'', JStr ''partial'')]"
    by (simp add: opt_dict_field_def)
  from es have "secondary es = None \<and> stability es = None"
    by (auto simp: EmotionalState_fields_def bind_eq_Some_conv opt_str_field_def
          opt_float_field_def)
  with mp show "secondary (emotional_state m) = None" "stability (emotional_state m) = None"
    by simp_all
qed

lemma clamp_num: "clamp (JNum r) lo hi = Inr (JNum (min (max r lo) hi))"
  by (simp add: clamp_def py_max_def py_min_def bind_exc_simps min_def max_def)

lemma clamped_float_field:
  assumes "clamp (JNum r) lo hi = Inr x" and "float_field lx lo' hi' (Some x) = Some y"
  shows "y = min (max r lo) hi"
  using assms by (auto simp: clamp_num float_field_def as_float_def split: if_splits)

lemma absent_or_is_num:
  "absent_or is_num v \<Longrightarrow> \<exists>r. (case v of None \<Rightarrow> JNum c | Some x \<Rightarrow> x) = JNum r"
  by (cases v; cases "the v") (simp_all add: absent_or_def)

lemma absent_or_is_str:
  "absent_or is_str v \<Longrightarrow> \<exists>r. (case v of None \<Rightarrow> JStr c | Some x \<Rightarrow> x) = JStr r"
  by (cases v; cases "the v") (simp_all add: absent_or_def)

lemma absent_or_is_str_or_null:
  "absent_or is_str_or_null v \<Longrightarrow>
   \<exists>r. opt_str_field (Some (case v of None \<Rightarrow> JStr c | Some x \<Rightarrow> x)) = Some r"
  by (cases v; cases "the v") (simp_all add: absent_or_def opt_str_field_def)

lemma nested_get_emotional:
  assumes "absent_or emotional_part (map_of d ''emotional_state'')"
  shows "\<exists>p. nested_get (JObj d) ''emotional_state'' ''primary'' (JStr c) = Inr (JStr p)"
    and "\<exists>r. nested_get (JObj d) ''emotional_state'' ''intensity'' (JNum x) = Inr (JNum r)"
    and "\<exists>r. nested_get (JObj d) ''emotional_state'' ''valence'' (JNum x) = Inr (JNum r)"
    and "\<exists>r. nested_get (JObj d) ''emotional_state'' ''arousal'' (JNum x) = Inr (JNum r)"
proof -
  show "\<exists>p. nested_get (JObj d) ''emotional_state'' ''primary'' (JStr c) = Inr (JStr p)"
  proof (cases "map_of d ''emotional_state''")
    case None
    then show ?thesis by (simp add: nested_get_def bind_exc_simps)
  next
    case (Some e)
    with assms obtain ed where "e = JObj ed" "absent_or is_str (map_of ed ''primary'')"
      by (cases e) (simp_all add: absent_or_def)
    with Some show ?thesis
      using absent_or_is_str [of "map_of ed ''primary''" c]
      by (simp add: nested_get_def bind_exc_simps)
  qed
  have num: "\<exists>r. nested_get (JObj d) ''emotional_state'' k (JNum x) = Inr (JNum r)"
    if "k \<in> {''intensity'', ''valence'', ''arousal''}" for k
  proof (cases "map_of d ''emotional_state''")
    case None
    then show ?thesis by (simp add: nested_get_def bind_exc_simps)
  next
    case (Some e)
    with assms that obtain ed where "e = JObj ed" "absent_or is_num (map_of ed k)"
      by (cases e) (auto simp add: absent_or_def)
    with Some show ?thesis
      using absent_or_is_num [of "map_of ed k" x]
      by (simp add: nested_get_def bind_exc_simps)
  qed
  show "\<exists>r. nested_get (JObj d) ''emotional_state'' ''intensity'' (JNum x) = Inr (JNum r)"
    by (rule num) simp
  show "\<exists>r. nested_get (JObj d) ''emotional_state'' ''valence'' (JNum x) = Inr (JNum r)"
    by (rule num) simp
  show "\<exists>r. nested_get (JObj d) ''emotional_state'' ''arousal'' (JNum x) = Inr (JNum r)"
    by (rule num) simp
qed

lemma nested_get_behavior:
  assumes "absent_or behavior_part (map_of d ''behavior'')"
  shows "\<exists>n. nested_get (JObj d) ''behavior'' ''name'' dflt = Inr n"
    and "\<exists>g r. nested_get (JObj d) ''behavior'' ''goal'' (JStr c) = Inr g
               \<and> opt_str_field (Some g) = Some r"
proof -
  show "\<exists>n. nested_get (JObj d) ''behavior'' ''name'' dflt = Inr n"
  proof (cases "map_of d ''behavior''")
    case None
    then show ?thesis by (simp add: nested_get_def bind_exc_simps)
  next
    case (Some b)
    with assms obtain bd where "b = JObj bd"
      by (cases b) (simp_all add: absent_or_def)
    with Some show ?thesis
      by (simp add: nested_get_def bind_exc_simps)
  qed
  show "\<exists>g r. nested_get (JObj d) ''behavior'' ''goal'' (JStr c) = Inr g
               \<and> opt_str_field (Some g) = Some r"
  proof (cases "map_of d ''behavior''")
    case None
    then show ?thesis by (simp add: nested_get_def bind_exc_simps opt_str_field_def)
  next
    case (Some b)
    with assms obtain bd where "b = JObj bd" "absent_or is_str_or_null (map_of bd ''goal'')"
      by (cases b) (simp_all add: absent_or_def)
    with Some show ?thesis
      using absent_or_is_str_or_null [of "map_of bd ''goal''" c]
      by (simp add: nested_get_def bind_exc_simps)
  qed
qed

lemma chosen_persona:
  "\<exists>pv p. py_get (JObj d) ''persona'' JNull = Inr pv \<and> p \<in> set PERSONAS \<and>
     (if pv \<in> set (map JStr PERSONAS)
      then py_get (JObj d) ''persona'' (JStr ''Sage'')
      else Inr (JStr ''Sage'')) = Inr (JStr p)"
proof (cases "\<exists>p \<in> set PERSONAS. map_of d ''persona'' = Some (JStr p)")
  case True
  then obtain p where "p \<in> set PERSONAS" "map_of d ''persona'' = Some (JStr p)" by blast
  then show ?thesis
    by (intro exI [of _ "JStr p"] exI [of _ p]) (simp add: image_iff)
next
  case False
  then have "(case map_of d ''persona'' of None \<Rightarrow> JNull | Some v \<Rightarrow> v) \<notin> JStr ` set PERSONAS"
    by (auto split: option.splits)
  then show ?thesis
    by (intro exI [of _ "case map_of d ''persona'' of None \<Rightarrow> JNull | Some v \<Rightarrow> v"]
          exI [of _ "''Sage''"]) (simp add: PERSONAS_def)
qed

lemma chosen_behavior_name:
  assumes "nested_get data ''behavior'' ''name'' JNull = Inr n"
  shows "\<exists>b. b \<in> set BEHAVIORS \<and>
     (if n \<notin> set (map JStr BEHAVIORS)
      then Inr (JStr ''acknowledge'')
      else nested_get data ''behavior'' ''name'' (JStr ''acknowledge'')) = Inr (JStr b)"
proof (cases "n \<in> set (map JStr BEHAVIORS)")
  case False
  then show ?thesis
    by (intro exI [of _ "''acknowledge''"]) (simp add: BEHAVIORS_def)
next
  case True
  then obtain b where b: "b \<in> set BEHAVIORS" "n = JStr b" by auto
  from assms obtain inner where i: "py_get data ''behavior'' (JObj []) = Inr inner"
      "py_get inner ''name'' JNull = Inr n"
    by (auto simp: nested_get_def bind_exc_eq_Inr)
  from i(2) b(2) obtain bd where "inner = JObj bd" "map_of bd ''name'' = Some (JStr b)"
    by (cases inner) (auto split: option.splits)
  with i(1) have "nested_get data ''behavior'' ''name'' (JStr ''acknowledge'') = Inr (JStr b)"
    by (simp add: nested_get_def bind_exc_simps)
  with True b show ?thesis by auto
qed

lemma partial_message_reconstructible:
  assumes "reconstructible data"
  shows "\<exists>m. partial_message lib data user_input = Inr m"
proof -
  from assms obtain d where d: "data = JObj d"
    by (cases data) simp_all
  from assms d have
    a1: "absent_or is_str (map_of d ''intent'')" and
    a2: "absent_or emotional_part (map_of d ''emotional_state'')" and
    a3: "absent_or is_str_or_null (map_of d ''emoji'')" and
    a4: "absent_or is_str (map_of d ''response'')" and
    a5: "absent_or behavior_part (map_of d ''behavior'')" and
    a6: "absent_or is_num (map_of d ''confidence'')"
    by simp_all
  from absent_or_is_str [OF a1] obtain i where
    f1: "py_get data ''intent'' (JStr ''general_assistance'') = Inr (JStr i)"
    unfolding d by auto
  from chosen_persona [of d] obtain pv p where
    f2: "py_get data ''persona'' JNull = Inr pv" and
    f3: "(if pv \<in> set (map JStr PERSONAS)
          then py_get data ''persona'' (JStr ''Sage'')
          else Inr (JStr ''Sage'')) = Inr (JStr p)" and
    p: "p \<in> set PERSONAS"
    unfolding d by blast
  from nested_get_emotional [OF a2] obtain pr r1 r2 r3 where
    f4: "nested_get data ''emotional_state'' ''primary'' (JStr ''helpful'') = Inr (JStr pr)" and
    f5: "nested_get data ''emotional_state'' ''intensity'' (JNum 0.7) = Inr (JNum r1)" and
    f6: "nested_get data ''emotional_state'' ''valence'' (JNum 0.5) = Inr (JNum r2)" and
    f7: "nested_get data ''emotional_state'' ''arousal'' (JNum 0.5) = Inr (JNum r3)"
    unfolding d by blast
  have f8: "EmotionalState_init lib (Some (JStr pr)) None (Some (JNum (min (max r1 0) 1)))
                 (Some (JNum (min (max r2 (- 1)) 1))) (Some (JNum (min (max r3 0) 1))) None =
            Inr \<lparr>primary = pr, secondary = None, intensity = min (max r1 0) 1,
                 valence = min (max r2 (- 1)) 1, arousal = min (max r3 0) 1,
                 stability = None\<rparr>"
    by (rule EmotionalState_init_num) (simp_all add: opt_str_field_def opt_float_field_def)
  from absent_or_is_str_or_null [OF a3, of ROBOT] obtain e e' where
    f9: "py_get data ''emoji'' (JStr ROBOT) = Inr e" and e: "opt_str_field (Some e) = Some e'"
    unfolding d by auto
  from absent_or_is_str [OF a4] obtain r where
    f10: "py_get data ''response''
                 (JStr (''I understand you'' @ [apostrophe] @ ''re asking about: ''
                        @ user_input @ ''. Let me help you with that.'')) = Inr (JStr r)"
    unfolding d by auto
  from nested_get_behavior(1) [OF a5] obtain n where
    f11: "nested_get data ''behavior'' ''name'' JNull = Inr n"
    unfolding d by blast
  from chosen_behavior_name [OF f11] obtain b where
    b: "b \<in> set BEHAVIORS" and
    f12: "(if n \<notin> set (map JStr BEHAVIORS)
           then Inr (JStr ''acknowledge'')
           else nested_get data ''behavior'' ''name'' (JStr ''acknowledge'')) = Inr (JStr b)"
    by blast
  from nested_get_behavior(2) [OF a5] obtain g g' where
    f13: "nested_get data ''behavior'' ''goal'' (JStr ''Provide helpful assistance'') = Inr g"
    and g: "opt_str_field (Some g) = Some g'"
    unfolding d by blast
  have f14: "MELDAction_init lib (Some (JStr ''state'')) (Some (JStr ''assistance''))
                 (Some (JStr ''active'')) None None =
        Inr \<lparr>type = ''state'', target = Some ''assistance'', value' = Some ''active'',
         duration = None, priority = None\<rparr>"
    by (simp add: MELDAction_init_const ACTION_TYPES_def)
  note f15 = MELDBehavior_init_gen [OF b g]
  from absent_or_is_num [OF a6] obtain c where
    f16: "py_get data ''confidence'' (JNum 0.6) = Inr (JNum c)"
    unfolding d by auto
  have f17: "MELDMessage_init lib (Some (JStr i)) (Some (JStr p)) es (Some e) (Some (JStr r)) bh
       (Some (JNum (min (max c 0) 1))) (Some (JObj md)) =
     Inr \<lparr>intent = i, persona = p, emotional_state = es, emoji = e', response = r,
          behavior = bh, confidence = min (max c 0) 1, metadata = Some md\<rparr>" for es bh md
    by (rule MELDMessage_init_gen [OF p _ _ e]) simp_all
  show ?thesis
    unfolding partial_message_def f1 f2 f3 f4 f5 f6 f7 f9 f10 f11 f12 f13 f14 f16
      bind_exc_simps clamp_num f8 f15 f17
    by blast
qed




subsection \<open>The pipeline\<close>

text \<open>The four ways \<^verbatim>\<open>_parse_meld_response\<close> can go.\<close>

lemma parse_meld_response_cases:
  obtains
    (validated) j m where
      "meld_json = Some j" "MELDMessage_validate (json_mode lib) j = Some m"
      "parse_meld_response lib s meld_json user_input =
         (s\<lparr>successful_parses := successful_parses s + 1\<rparr>, Inr m)"
  | (partial) j m where
      "meld_json = Some j" "MELDMessage_validate (json_mode lib) j = None"
      "partial_message lib j user_input = Inr m"
      "parse_meld_response lib s meld_json user_input =
         (s\<lparr>fallbacks_used := fallbacks_used s + 1\<rparr>, Inr m)"
  | (partial_raised) j e where
      "meld_json = Some j" "MELDMessage_validate (json_mode lib) j = None"
      "partial_message lib j user_input = Inl e"
      "parse_meld_response lib s meld_json user_input =
         create_intelligent_fallback lib (s\<lparr>fallbacks_used := fallbacks_used s + 1\<rparr>)
           user_input (''JSON parsing failed: '' @ str_exc ValidationError)"
  | (undecodable)
      "meld_json = None"
      "parse_meld_response lib s meld_json user_input =
         create_intelligent_fallback lib s user_input
           (''JSON parsing failed: '' @ str_exc ValidationError)"
proof (cases meld_json)
  case None
  then show ?thesis
    using undecodable
    by (simp add: parse_meld_response_def model_validate_json_def json_loads_def)
next
  case (Some j)
  show ?thesis
  proof (cases "MELDMessage_validate (json_mode lib) j")
    case v: (Some m)
    with Some show ?thesis
      using validated
      by (simp add: parse_meld_response_def model_validate_json_def validated_def)
  next
    case v: None
    show ?thesis
    proof (cases "partial_message lib j user_input")
      case (Inl e)
      with Some v show ?thesis
        using partial_raised
        by (simp add: parse_meld_response_def model_validate_json_def validated_def
              json_loads_def create_partial_meld_def)
    next
      case (Inr m)
      with Some v show ?thesis
        using partial
        by (simp add: parse_meld_response_def model_validate_json_def validated_def
              json_loads_def create_partial_meld_def)
    qed
  qed
qed

lemma record_interaction_simps:
  "interaction_history (record_interaction s user_input m ts pt b) =
     interaction_history s @
       [\<lparr>entry_timestamp = ts, entry_user_input = user_input, entry_persona = persona m,
         entry_behavior = name (behavior m), entry_confidence = confidence m,
         entry_processing_time = pt, entry_success = b\<rparr>]"
  "fallbacks_used (record_interaction s user_input m ts pt b) = fallbacks_used s"
  "successful_parses (record_interaction s user_input m ts pt b) = successful_parses s"
  "total_requests (record_interaction s user_input m ts pt b) = total_requests s"
  "avg_confidence (record_interaction s user_input m ts pt b) =
     sum_list (map entry_confidence (interaction_history s @
       [\<lparr>entry_timestamp = ts, entry_user_input = user_input, entry_persona = persona m,
         entry_behavior = name (behavior m), entry_confidence = confidence m,
         entry_processing_time = pt, entry_success = b\<rparr>]))
     / real (length (interaction_history s @
       [\<lparr>entry_timestamp = ts, entry_user_input = user_input, entry_persona = persona m,
         entry_behavior = name (behavior m), entry_confidence = confidence m,
         entry_processing_time = pt, entry_success = b\<rparr>]))"
  by (simp_all add: record_interaction_def Let_def)

lemma process_query_unreachable:
  "\<not> reachable w \<Longrightarrow>
   process_query lib self user_input w =
     (self\<lparr>total_requests := total_requests self + 1\<rparr>,
      create_connection_fallback lib user_input)"
  by (simp add: process_query_def Let_def)

text \<open>Whenever the probe succeeds, the query ends in \<^verbatim>\<open>_record_interaction\<close> and a
  record; the counters move as the path taken dictates.\<close>

lemma process_query_reachable:
  assumes r: "reachable w"
  obtains s m where
    "process_query lib self user_input w =
       (record_interaction s user_input m (now w) (elapsed w)
          (case reply w of Inl e \<Rightarrow> False | Inr body \<Rightarrow> True),
        Inr m)"
    "in_declared_ranges m"
    "interaction_history s = interaction_history self"
    "total_requests s = total_requests self + 1"
    "fallbacks_used s = fallbacks_used self + (if validator_path lib w then 0 else 1)
        + (if partial_raises lib user_input w then 1 else 0)"
    "successful_parses s = successful_parses self + (if validator_path lib w then 1 else 0)"
    "validator_path lib w = (\<exists>j. reply w = Inr (Some j)
        \<and> MELDMessage_validate (json_mode lib) j = Some m)"
    "validator_path lib w \<or> has_fallback_type m"
proof -
  let ?s1 = "self\<lparr>total_requests := total_requests self + 1\<rparr>"
  show ?thesis
  proof (cases "reply w")
    case (Inl e)
    obtain m where m:
      "create_intelligent_fallback lib ?s1 user_input (str_exc e) =
         (?s1\<lparr>fallbacks_used := fallbacks_used ?s1 + 1\<rparr>, Inr m)"
      "in_declared_ranges m"
      "metadata m = Some [(''fallback_type'', JStr ''intelligent_analysis''),
                        (''error'', JStr (str_exc e)), (''processing_mode'', JStr ''safe_fallback'')]"
      by (rule create_intelligent_fallback_ok)
    show ?thesis
      by (rule that [of "?s1\<lparr>fallbacks_used := fallbacks_used ?s1 + 1\<rparr>" m])
         (use r Inl m in \<open>simp_all add: process_query_def Let_def validator_path_def
            partial_raises_def has_fallback_type_def\<close>)
  next
    case (Inr body)
    show ?thesis
    proof (cases rule: parse_meld_response_cases [of body lib ?s1 user_input])
      case (validated j m)
      from validated(2) have "in_declared_ranges m"
        by (rule MELDMessage_validate_ranges)
      then show ?thesis
        by (intro that [of "?s1\<lparr>successful_parses := successful_parses ?s1 + 1\<rparr>" m])
           (use r Inr validated in \<open>simp_all add: process_query_def Let_def validator_path_def
            partial_raises_def model_validate_json_def validated_def\<close>)
    next
      case (partial j m)
      note pm = partial_message_Inr [OF partial(3)]
      show ?thesis
        by (rule that [of "?s1\<lparr>fallbacks_used := fallbacks_used ?s1 + 1\<rparr>" m])
           (use r Inr partial pm in \<open>simp_all add: process_query_def Let_def validator_path_def
            partial_raises_def model_validate_json_def validated_def has_fallback_type_def\<close>)
    next
      case (partial_raised j e)
      let ?s2 = "?s1\<lparr>fallbacks_used := fallbacks_used ?s1 + 1\<rparr>"
      obtain m where m:
        "create_intelligent_fallback lib ?s2 user_input
           (''JSON parsing failed: '' @ str_exc ValidationError) =
           (?s2\<lparr>fallbacks_used := fallbacks_used ?s2 + 1\<rparr>, Inr m)"
        "in_declared_ranges m"
        "metadata m = Some [(''fallback_type'', JStr ''intelligent_analysis''),
                        (''error'', JStr (''JSON parsing failed: '' @ str_exc ValidationError)),
                        (''processing_mode'', JStr ''safe_fallback'')]"
        by (rule create_intelligent_fallback_ok)
      show ?thesis
        by (rule that [of "?s2\<lparr>fallbacks_used := fallbacks_used ?s2 + 1\<rparr>" m])
           (use r Inr partial_raised m in \<open>simp_all add: process_query_def Let_def
              validator_path_def partial_raises_def model_validate_json_def validated_def
              has_fallback_type_def\<close>)
    next
      case undecodable
      obtain m where m:
        "create_intelligent_fallback lib ?s1 user_input
           (''JSON parsing failed: '' @ str_exc ValidationError) =
           (?s1\<lparr>fallbacks_used := fallbacks_used ?s1 + 1\<rparr>, Inr m)"
        "in_declared_ranges m"
        "metadata m = Some [(''fallback_type'', JStr ''intelligent_analysis''),
                        (''error'', JStr (''JSON parsing failed: '' @ str_exc ValidationError)),
                        (''processing_mode'', JStr ''safe_fallback'')]"
        by (rule create_intelligent_fallback_ok)
      show ?thesis
        by (rule that [of "?s1\<lparr>fallbacks_used := fallbacks_used ?s1 + 1\<rparr>" m])
           (use r Inr undecodable m in \<open>simp_all add: process_query_def Let_def
              validator_path_def partial_raises_def model_validate_json_def validated_def
              has_fallback_type_def\<close>)
    qed
  qed
qed

lemma process_query_step:
  obtains s' m where
    "process_query lib self user_input w = (s', Inr m)"
    "fallbacks_used s' = fallbacks_used self
        + (if reachable w \<and> \<not> validator_path lib w then 1 else 0)
        + (if partial_raises lib user_input w then 1 else 0)"
    "length (interaction_history s') =
       length (interaction_history self) + (if reachable w then 1 else 0)"
    "statistics_consistent self \<longrightarrow> statistics_consistent s'"
proof (cases "reachable w")
  case False
  obtain m where "create_connection_fallback lib user_input = Inr m"
    by (rule create_connection_fallback_ok)
  with False show ?thesis
    by (intro that [of "self\<lparr>total_requests := total_requests self + 1\<rparr>" m])
       (simp_all add: process_query_unreachable partial_raises_def statistics_consistent_def)
next
  case True
  then obtain s m where sm:
    "process_query lib self user_input w =
       (record_interaction s user_input m (now w) (elapsed w)
          (case reply w of Inl e \<Rightarrow> False | Inr body \<Rightarrow> True),
        Inr m)"
    "interaction_history s = interaction_history self"
    "fallbacks_used s = fallbacks_used self + (if validator_path lib w then 0 else 1)
        + (if partial_raises lib user_input w then 1 else 0)"
    by (rule process_query_reachable)
  show ?thesis
    by (rule that [OF sm(1)])
       (use True sm in \<open>simp_all add: record_interaction_simps statistics_consistent_def
          mean_def\<close>)
qed

lemma run_facts:
  "fallbacks_used (run lib s qs) =
     fallbacks_used s
       + int (length (filter (\<lambda>(q, w). reachable w \<and> \<not> validator_path lib w) qs))
       + int (length (filter (\<lambda>(q, w). partial_raises lib q w) qs))
   \<and> length (interaction_history (run lib s qs)) =
       length (interaction_history s) + length (filter (\<lambda>(q, w). reachable w) qs)
   \<and> (statistics_consistent s \<longrightarrow> statistics_consistent (run lib s qs))"
proof (induction qs arbitrary: s)
  case Nil
  show ?case by simp
next
  case (Cons qw qs)
  obtain q w where qw: "qw = (q, w)" by (cases qw)
  obtain s' m where st:
    "process_query lib s q w = (s', Inr m)"
    "fallbacks_used s' = fallbacks_used s
        + (if reachable w \<and> \<not> validator_path lib w then 1 else 0)
        + (if partial_raises lib q w then 1 else 0)"
    "length (interaction_history s') =
       length (interaction_history s) + (if reachable w then 1 else 0)"
    "statistics_consistent s \<longrightarrow> statistics_consistent s'"
    by (rule process_query_step [of lib s q w])
  from Cons.IH [of s'] st show ?case
    by (simp add: qw)
qed

subsection \<open>Keyword matching\<close>






section \<open>The claims\<close>

text \<open>
  C1, amended. Every call of \<^verbatim>\<open>process_query\<close> returns exactly one record and raises
  nothing. When the connectivity probe succeeds, exactly one entry is appended to the
  interaction history, holding the persona, behaviour name and confidence of the record
  returned; when the probe fails, the connectivity fallback is returned at once and the
  history is left as it was.
\<close>

theorem C1_one_record_and_entry_when_dispatched:
  "\<exists>self' m. process_query lib self user_input w = (self', Inr m) \<and>
     interaction_history self' =
       (if reachable w
        then interaction_history self @
               [\<lparr>entry_timestamp = now w, entry_user_input = user_input,
                 entry_persona = persona m, entry_behavior = name (behavior m),
                 entry_confidence = confidence m, entry_processing_time = elapsed w,
                 entry_success = (case reply w of Inl e \<Rightarrow> False | Inr body \<Rightarrow> True)\<rparr>]
        else interaction_history self)"
proof (cases "reachable w")
  case False
  obtain m where "create_connection_fallback lib user_input = Inr m"
    by (rule create_connection_fallback_ok)
  with False show ?thesis
    by (simp add: process_query_unreachable)
next
  case True
  then obtain s m where
    "process_query lib self user_input w =
       (record_interaction s user_input m (now w) (elapsed w)
          (case reply w of Inl e \<Rightarrow> False | Inr body \<Rightarrow> True),
        Inr m)"
    "interaction_history s = interaction_history self"
    by (rule process_query_reachable)
  with True show ?thesis
    by (simp add: record_interaction_simps)
qed

text \<open>
  C1 as stated fails on the connectivity-fallback path: with the transport unreachable,
  a fresh processor answers the query and its history is still empty.
\<close>

theorem C1_counterexample:
  "length (interaction_history (fst (process_query strict_floats MELDProcessor_init ''hello''
      offline))) \<noteq> length (interaction_history MELDProcessor_init) + 1"
  by (simp add: process_query_unreachable offline_def MELDProcessor_init_def)

text \<open>
  C2. For every reading of the world (the probe failing or not, the dispatch raising or
  returning any text, decodable or not) and every library coercion, \<^verbatim>\<open>process_query\<close>
  returns a record whose intensity, arousal and confidence lie in [0,1], whose valence
  lies in [-1,1], whose stability, when present, lies in [0,1], whose persona is one of
  the five personas and whose behaviour name is one of the ten behaviours.
\<close>

theorem C2_record_in_declared_ranges:
  "\<exists>self' m. process_query lib self user_input w = (self', Inr m) \<and> in_declared_ranges m"
proof (cases "reachable w")
  case False
  obtain m where "create_connection_fallback lib user_input = Inr m" "in_declared_ranges m"
    by (rule create_connection_fallback_ok)
  with False show ?thesis
    by (simp add: process_query_unreachable)
next
  case True
  then obtain s m where
    "process_query lib self user_input w =
       (record_interaction s user_input m (now w) (elapsed w)
          (case reply w of Inl e \<Rightarrow> False | Inr body \<Rightarrow> True),
        Inr m)"
    "in_declared_ranges m"
    by (rule process_query_reachable)
  then show ?thesis by blast
qed

text \<open>
  C3, amended. The entry recorded for a dispatched query has its success flag true
  exactly when the dispatch returned a reply text, whichever of strict validation,
  partial reconstruction and heuristic synthesis then produced the record; the flag is
  false exactly when the dispatch raised and the exception handler synthesised the
  record.
\<close>

theorem C3_success_flag_is_dispatch_returned:
  assumes "reachable w"
  shows "\<exists>self' m e. process_query lib self user_input w = (self', Inr m) \<and>
     interaction_history self' = interaction_history self @ [e] \<and>
     entry_success e = (case reply w of Inl x \<Rightarrow> False | Inr body \<Rightarrow> True)"
proof -
  from assms obtain s m where
    "process_query lib self user_input w =
       (record_interaction s user_input m (now w) (elapsed w)
          (case reply w of Inl e \<Rightarrow> False | Inr body \<Rightarrow> True),
        Inr m)"
    "interaction_history s = interaction_history self"
    by (rule process_query_reachable)
  then show ?thesis
    by (simp add: record_interaction_simps)
qed

text \<open>
  C3 as stated fails on the partial-reconstruction path: the reply \<^verbatim>\<open>{}\<close> does not
  validate against the schema, the record is rebuilt from defaults, and the entry is
  recorded with the success flag true.
\<close>

theorem C3_counterexample:
  "entry_success (last (interaction_history (fst (process_query strict_floats
      MELDProcessor_init ''hello'' (replying (Some (JObj [])))))))
   \<and> model_validate_json strict_floats (Some (JObj [])) = Inl ValidationError"
  by code_simp

text \<open>An instance of C3: a dispatch that times out is recorded with the flag false.\<close>

theorem C3_witness:
  "\<exists>self' m e. process_query strict_floats MELDProcessor_init ''hello'' timing_out = (self', Inr m)
     \<and> interaction_history self' = [e] \<and> \<not> entry_success e"
  using C3_success_flag_is_dispatch_returned
          [of timing_out strict_floats MELDProcessor_init "''hello''"]
  by (simp add: timing_out_def MELDProcessor_init_def)

text \<open>
  C4, amended. \<^verbatim>\<open>process_query\<close> never raises: for every query and every reading of
  the world it returns a record. A record produced after the dispatch on any path but
  strict validation (partial reconstruction or heuristic synthesis) carries a metadata
  mapping with the key \<^verbatim>\<open>fallback_type\<close>. The connectivity fallback carries the metadata
  \<^verbatim>\<open>{"error_type": "connection_failure", "suggested_action": "restart_ollama"}\<close>
  instead, which has no \<^verbatim>\<open>fallback_type\<close>.
\<close>

theorem C4_never_raises_and_marks_fallbacks:
  "\<exists>self' m. process_query lib self user_input w = (self', Inr m) \<and>
     (if reachable w
      then validator_path lib w \<or> has_fallback_type m
      else metadata m = Some [(''error_type'', JStr ''connection_failure''),
                              (''suggested_action'', JStr ''restart_ollama'')])"
proof (cases "reachable w")
  case False
  obtain m where "create_connection_fallback lib user_input = Inr m"
    "metadata m = Some [(''error_type'', JStr ''connection_failure''),
                        (''suggested_action'', JStr ''restart_ollama'')]"
    by (rule create_connection_fallback_ok)
  with False show ?thesis
    by (simp add: process_query_unreachable)
next
  case True
  then obtain s m where
    "process_query lib self user_input w =
       (record_interaction s user_input m (now w) (elapsed w)
          (case reply w of Inl e \<Rightarrow> False | Inr body \<Rightarrow> True),
        Inr m)"
    "validator_path lib w \<or> has_fallback_type m"
    by (rule process_query_reachable)
  with True show ?thesis by auto
qed

text \<open>
  C4 as stated fails on the connectivity-fallback path: the record returned when the
  transport is unreachable has no \<^verbatim>\<open>fallback_type\<close> in its metadata.
\<close>

theorem C4_counterexample:
  "(case snd (process_query strict_floats MELDProcessor_init ''hello'' offline) of
      Inl e \<Rightarrow> False
    | Inr m \<Rightarrow> \<not> has_fallback_type m)"
  by code_simp

text \<open>An instance of C4: the record synthesised after a time-out is marked.\<close>

theorem C4_witness:
  "\<exists>self' m. process_query strict_floats MELDProcessor_init ''hello'' timing_out = (self', Inr m)
     \<and> has_fallback_type m"
  using C4_never_raises_and_marks_fallbacks
          [of strict_floats MELDProcessor_init "''hello''" timing_out]
  by (simp add: timing_out_def validator_path_def)

text \<open>
  C5, amended. After any session started on a fresh processor, the average confidence
  held in the statistics is the arithmetic mean of the confidences of the recorded
  interactions (and 0.0 while none is recorded), one interaction being recorded for each
  query whose probe succeeded. In a session in which no partial reconstruction raised,
  \<^verbatim>\<open>fallbacks_used\<close> is the number of dispatched queries (probe succeeded) whose outcome
  was not the strict path; a query answered by the connectivity fallback is neither
  recorded nor counted.
\<close>

theorem C5_statistics_over_recorded_interactions:
  "statistics_consistent (run lib MELDProcessor_init qs)
   \<and> length (interaction_history (run lib MELDProcessor_init qs)) =
       length (filter (\<lambda>(q, w). reachable w) qs)
   \<and> (no_reconstruction_raised lib qs \<longrightarrow>
        fallbacks_used (run lib MELDProcessor_init qs) =
          int (length (filter (\<lambda>(q, w). reachable w \<and> \<not> validator_path lib w) qs)))"
proof -
  have "filter (\<lambda>(q, w). partial_raises lib q w) qs = []" if "no_reconstruction_raised lib qs"
    using that by (auto simp: no_reconstruction_raised_def list_all_iff filter_empty_conv)
  moreover have "statistics_consistent MELDProcessor_init"
    by (simp add: statistics_consistent_def MELDProcessor_init_def)
  ultimately show ?thesis
    using run_facts [of lib MELDProcessor_init qs]
    by (simp add: MELDProcessor_init_def)
qed

text \<open>
  C5 as stated fails on the connectivity-fallback path: after one query answered with
  the transport unreachable, one query had an outcome other than the strict path, and
  \<^verbatim>\<open>fallbacks_used\<close> is still 0.
\<close>

theorem C5_counterexample:
  "fallbacks_used (run strict_floats MELDProcessor_init [(''hello'', offline)]) \<noteq>
   int (length (filter (\<lambda>(q, w). \<not> validator_path strict_floats w) [(''hello'', offline)]))"
  by code_simp

text \<open>An instance of C5: a partial reconstruction, a time-out and an unreachable
  transport, in this order.\<close>

theorem C5_witness:
  "no_reconstruction_raised strict_floats
     [(''hello'', replying (Some (JObj []))), (''hello'', timing_out), (''hello'', offline)]
   \<and> avg_confidence (run strict_floats MELDProcessor_init
        [(''hello'', replying (Some (JObj []))), (''hello'', timing_out), (''hello'', offline)])
       = mean [0.6, 0.6]
   \<and> fallbacks_used (run strict_floats MELDProcessor_init
        [(''hello'', replying (Some (JObj []))), (''hello'', timing_out), (''hello'', offline)])
       = 2"
proof -
  have h: "no_reconstruction_raised strict_floats
     [(''hello'', replying (Some (JObj []))), (''hello'', timing_out), (''hello'', offline)]"
    by code_simp
  have v: "\<not> validator_path strict_floats (replying (Some (JObj [])))"
      "\<not> validator_path strict_floats timing_out"
    by code_simp+
  have c: "map entry_confidence (interaction_history (run strict_floats MELDProcessor_init
        [(''hello'', replying (Some (JObj []))), (''hello'', timing_out), (''hello'', offline)]))
      = [0.6, 0.6]"
    by code_simp
  have r: "reachable (replying (Some (JObj [])))" "reachable timing_out" "\<not> reachable offline"
    by (simp_all add: replying_def timing_out_def offline_def)
  from c have ne: "interaction_history (run strict_floats MELDProcessor_init
        [(''hello'', replying (Some (JObj []))), (''hello'', timing_out), (''hello'', offline)])
      \<noteq> []"
    by auto
  from C5_statistics_over_recorded_interactions [of strict_floats
        "[(''hello'', replying (Some (JObj []))), (''hello'', timing_out), (''hello'', offline)]"]
    ne c
  have "avg_confidence (run strict_floats MELDProcessor_init
        [(''hello'', replying (Some (JObj []))), (''hello'', timing_out), (''hello'', offline)])
       = mean [0.6, 0.6]"
    unfolding statistics_consistent_def by metis
  moreover from C5_statistics_over_recorded_interactions [of strict_floats
        "[(''hello'', replying (Some (JObj []))), (''hello'', timing_out), (''hello'', offline)]"]
    h
  have "fallbacks_used (run strict_floats MELDProcessor_init
        [(''hello'', replying (Some (JObj []))), (''hello'', timing_out), (''hello'', offline)])
       = 2"
    by (simp add: v r)
  ultimately show ?thesis
    using h by blast
qed




text \<open>
  C7. Whatever the input structure, a record that partial reconstruction returns has as
  its behaviour's actions exactly the one synthetic action with type \<^verbatim>\<open>state\<close>, target
  \<^verbatim>\<open>assistance\<close> and value \<^verbatim>\<open>active\<close>, and its metadata maps \<^verbatim>\<open>fallback_type\<close> to
  \<^verbatim>\<open>partial_extraction\<close>.
\<close>

theorem C7_single_synthetic_action:
  assumes "create_partial_meld lib self data user_input = (self', Inr m)"
  shows "actions (behavior m) =
           [\<lparr>type = ''state'', target = Some ''assistance'', value' = Some ''active'',
             duration = None, priority = None\<rparr>]
         \<and> (\<exists>md. metadata m = Some md
                \<and> map_of md ''fallback_type'' = Some (JStr ''partial_extraction''))"
proof -
  from assms have "partial_message lib data user_input = Inr m"
    by (simp add: create_partial_meld_def)
  from partial_message_Inr(2,3) [OF this] show ?thesis by simp
qed

text \<open>An instance of C7: the action supplied by the source is discarded.\<close>

theorem C7_witness:
  "\<exists>self' m. create_partial_meld strict_floats MELDProcessor_init
       (JObj [(''behavior'',
               JObj [(''name'', JStr ''focus''),
                     (''actions'', JArr [JObj [(''type'', JStr ''visual'')]])])]) ''hello''
       = (self', Inr m)
     \<and> actions (behavior m) =
           [\<lparr>type = ''state'', target = Some ''assistance'', value' = Some ''active'',
             duration = None, priority = None\<rparr>]
     \<and> (\<exists>md. metadata m = Some md
                \<and> map_of md ''fallback_type'' = Some (JStr ''partial_extraction''))"
proof -
  have "reconstructible (JObj [(''behavior'',
               JObj [(''name'', JStr ''focus''),
                     (''actions'', JArr [JObj [(''type'', JStr ''visual'')]])])])"
    by (simp add: absent_or_def)
  from partial_message_reconstructible [OF this]
  obtain m where m: "create_partial_meld strict_floats MELDProcessor_init
       (JObj [(''behavior'',
               JObj [(''name'', JStr ''focus''),
                     (''actions'', JArr [JObj [(''type'', JStr ''visual'')]])])]) ''hello''
       = (MELDProcessor_init\<lparr>fallbacks_used := fallbacks_used MELDProcessor_init + 1\<rparr>, Inr m)"
    unfolding create_partial_meld_def
    by blast
  from C7_single_synthetic_action [OF m] m show ?thesis by blast
qed



text \<open>
  C9, amended. If the transport is reachable and the reply text validates against the
  schema, \<^verbatim>\<open>process_query\<close> returns the record the validator read off the text,
  unchanged: intent, persona and response are the text's own, the emotional state and
  the behaviour are its members as validated, a numeric confidence is the text's own,
  and the metadata is the text's own metadata member. Hence \<^verbatim>\<open>fallback_type\<close> is
  absent from the record's metadata exactly when the text does not supply it.
\<close>

theorem C9_validated_record_returned_unchanged:
  assumes "reachable w" and "reply w = Inr (Some j)"
    and "model_validate_json lib (Some j) = Inr m"
  shows "snd (process_query lib self user_input w) = Inr m
     \<and> (\<exists>d. j = JObj d
          \<and> map_of d ''intent'' = Some (JStr (intent m))
          \<and> map_of d ''persona'' = Some (JStr (persona m))
          \<and> map_of d ''response'' = Some (JStr (response m))
          \<and> (\<exists>e. map_of d ''emotional_state'' = Some e
                \<and> EmotionalState_validate (json_mode lib) e = Some (emotional_state m))
          \<and> (\<exists>b. map_of d ''behavior'' = Some b
                \<and> MELDBehavior_validate (json_mode lib) b = Some (behavior m))
          \<and> (case map_of d ''confidence'' of
                Some (JNum c) \<Rightarrow> confidence m = c
              | _ \<Rightarrow> True)
          \<and> opt_dict_field (map_of d ''metadata'') = Some (metadata m)
          \<and> has_fallback_type m =
              (case map_of d ''metadata'' of
                 Some (JObj md) \<Rightarrow> map_of md ''fallback_type'' \<noteq> None
               | _ \<Rightarrow> False))"
proof -
  from assms(3) have v: "MELDMessage_validate (json_mode lib) j = Some m"
    by (simp add: model_validate_json_def validated_eq_Inr)
  from assms(1) obtain s m' where
    pq: "process_query lib self user_input w =
       (record_interaction s user_input m' (now w) (elapsed w)
          (case reply w of Inl e \<Rightarrow> False | Inr body \<Rightarrow> True),
        Inr m')" and
    vp: "validator_path lib w = (\<exists>j. reply w = Inr (Some j)
        \<and> MELDMessage_validate (json_mode lib) j = Some m')"
    by (rule process_query_reachable [of w lib self user_input])
  from assms have "validator_path lib w"
    by (simp add: validator_path_def)
  with vp assms(2) v have "m' = m" by auto
  with pq have one: "snd (process_query lib self user_input w) = Inr m" by simp
  from v obtain d where d: "j = JObj d"
    by (cases j) (simp_all add: MELDMessage_validate_def)
  from v d obtain e b es bh where
    e: "map_of d ''emotional_state'' = Some e"
       "EmotionalState_validate (json_mode lib) e = Some es" and
    b: "map_of d ''behavior'' = Some b"
       "MELDBehavior_validate (json_mode lib) b = Some bh" and
    f: "MELDMessage_fields (json_mode lib) (map_of d ''intent'') (map_of d ''persona'') es
          (map_of d ''emoji'') (map_of d ''response'') bh (map_of d ''confidence'')
          (map_of d ''metadata'') = Some m"
    by (auto simp: MELDMessage_validate_def bind_eq_Some_conv split: option.splits)
  from f obtain i p r where
    i: "str_field (map_of d ''intent'') = Some i" and
    p: "literal_field PERSONAS (map_of d ''persona'') = Some p" and
    r: "str_field (map_of d ''response'') = Some r" and
    c: "float_field (json_mode lib) 0 1 (map_of d ''confidence'') = Some (confidence m)" and
    md: "opt_dict_field (map_of d ''metadata'') = Some (metadata m)" and
    eq: "intent m = i" "persona m = p" "response m = r"
        "emotional_state m = es" "behavior m = bh"
    by (auto simp: MELDMessage_fields_def bind_eq_Some_conv)
  from c have cf: "case map_of d ''confidence'' of
                Some (JNum c) \<Rightarrow> confidence m = c
              | _ \<Rightarrow> True"
    by (auto simp: float_field_def as_float_def split: option.splits json.splits if_splits)
  from md have "has_fallback_type m =
              (case map_of d ''metadata'' of
                 Some (JObj md) \<Rightarrow> map_of md ''fallback_type'' \<noteq> None
               | _ \<Rightarrow> False)"
    by (auto simp: has_fallback_type_def opt_dict_field_def split: option.splits json.splits)
  with one d str_field_eq [OF i] literal_field_eq [OF p] str_field_eq [OF r] md eq e b cf
  show ?thesis by simp
qed

text \<open>
  C9 as stated fails on a valid reply whose own metadata has the key
  \<^verbatim>\<open>fallback_type\<close>: the record returned is the validated one, and the key is present.
\<close>

theorem C9_counterexample:
  "(case snd (process_query strict_floats MELDProcessor_init ''hello''
               (replying (Some valid_with_marker))) of
      Inl e \<Rightarrow> False
    | Inr m \<Rightarrow> model_validate_json strict_floats (Some valid_with_marker) = Inr m
             \<and> has_fallback_type m)"
  by code_simp

text \<open>An instance of C9.\<close>

theorem C9_witness:
  "reachable (replying (Some valid_with_marker))
   \<and> reply (replying (Some valid_with_marker)) = Inr (Some valid_with_marker)
   \<and> (\<exists>m. model_validate_json strict_floats (Some valid_with_marker) = Inr m
         \<and> snd (process_query strict_floats MELDProcessor_init ''hello''
                  (replying (Some valid_with_marker))) = Inr m)"
proof -
  have h1: "reachable (replying (Some valid_with_marker))"
    and h2: "reply (replying (Some valid_with_marker)) = Inr (Some valid_with_marker)"
    by (simp_all add: replying_def)
  have "case model_validate_json strict_floats (Some valid_with_marker) of
          Inl e \<Rightarrow> False | Inr m \<Rightarrow> True"
    by code_simp
  then obtain m where h3: "model_validate_json strict_floats (Some valid_with_marker) = Inr m"
    by (cases "model_validate_json strict_floats (Some valid_with_marker)") simp_all
  from C9_validated_record_returned_unchanged [OF h1 h2 h3, of MELDProcessor_init "''hello''"]
  have "snd (process_query strict_floats MELDProcessor_init ''hello''
                  (replying (Some valid_with_marker))) = Inr m"
    by blast
  with h1 h2 h3 show ?thesis by blast
qed

text \<open>
  C10. Whatever the input structure, a record that partial reconstruction returns has
  neither a secondary emotion nor a stability. Of the emotional state only the primary
  emotion and the intensity, valence and arousal come from the source: the primary
  emotion is the source's (or the default), and a numeric intensity, valence or arousal
  of the source (or the default) is clamped into its range.
\<close>

theorem C10_secondary_and_stability_dropped:
  assumes "create_partial_meld lib self data user_input = (self', Inr m)"
  shows "secondary (emotional_state m) = None \<and> stability (emotional_state m) = None
     \<and> nested_get data ''emotional_state'' ''primary'' (JStr ''helpful'')
         = Inr (JStr (primary (emotional_state m)))
     \<and> (\<exists>i v a.
           nested_get data ''emotional_state'' ''intensity'' (JNum 0.7) = Inr i
         \<and> nested_get data ''emotional_state'' ''valence'' (JNum 0.5) = Inr v
         \<and> nested_get data ''emotional_state'' ''arousal'' (JNum 0.5) = Inr a
         \<and> (case i of JNum r \<Rightarrow> intensity (emotional_state m) = min (max r 0) 1 | _ \<Rightarrow> True)
         \<and> (case v of JNum r \<Rightarrow> valence (emotional_state m) = min (max r (- 1)) 1 | _ \<Rightarrow> True)
         \<and> (case a of JNum r \<Rightarrow> arousal (emotional_state m) = min (max r 0) 1 | _ \<Rightarrow> True))"
proof -
  from assms have pm: "partial_message lib data user_input = Inr m"
    by (simp add: create_partial_meld_def)
  then obtain pr i0 it v0 va a0 ar nm gl es bh a_intent a_persona a_emoji a_response
      a_confidence where
    g1: "nested_get data ''emotional_state'' ''primary'' (JStr ''helpful'') = Inr pr" and
    g2: "nested_get data ''emotional_state'' ''intensity'' (JNum 0.7) = Inr i0" and
    c2: "clamp i0 0 1 = Inr it" and
    g3: "nested_get data ''emotional_state'' ''valence'' (JNum 0.5) = Inr v0" and
    c3: "clamp v0 (- 1) 1 = Inr va" and
    g4: "nested_get data ''emotional_state'' ''arousal'' (JNum 0.5) = Inr a0" and
    c4: "clamp a0 0 1 = Inr ar" and
    es: "EmotionalState_fields (python_mode lib) (Some pr) None (Some it) (Some va) (Some ar)
           None = Some es" and
    m: "MELDMessage_fields (python_mode lib) (Some a_intent) (Some a_persona) es (Some a_emoji)
       (Some a_response) bh (Some a_confidence)
       (Some (JObj [(''fallback_type'', JStr ''partial_extraction''),
                    (''original_data_quality'', JStr ''partial'')])) = Some m"
    by (rule partial_message_parts)
  from MELDMessage_fields_props [OF m] have e: "emotional_state m = es" by simp
  from es obtain
    p: "str_field (Some pr) = Some (primary es)" and
    i: "float_field (python_mode lib) 0 1 (Some it) = Some (intensity es)" and
    v: "float_field (python_mode lib) (- 1) 1 (Some va) = Some (valence es)" and
    a: "float_field (python_mode lib) 0 1 (Some ar) = Some (arousal es)"
    by (auto simp: EmotionalState_fields_def bind_eq_Some_conv)
  from str_field_eq [OF p] have pr: "pr = JStr (primary es)" by simp
  have ci: "case i0 of JNum r \<Rightarrow> intensity es = min (max r 0) 1 | _ \<Rightarrow> True"
    using c2 i by (cases i0) (auto dest: clamped_float_field)
  have cv: "case v0 of JNum r \<Rightarrow> valence es = min (max r (- 1)) 1 | _ \<Rightarrow> True"
    using c3 v by (cases v0) (auto dest: clamped_float_field)
  have ca: "case a0 of JNum r \<Rightarrow> arousal es = min (max r 0) 1 | _ \<Rightarrow> True"
    using c4 a by (cases a0) (auto dest: clamped_float_field)
  from partial_message_Inr(4,5) [OF pm] g1 g2 g3 g4 ci cv ca show ?thesis
    unfolding e pr by blast
qed

text \<open>An instance of C10: a valid secondary emotion and stability are dropped, and the
  intensity 7 is clamped to 1.\<close>

theorem C10_witness:
  "\<exists>self' m. create_partial_meld strict_floats MELDProcessor_init
       (JObj [(''emotional_state'',
               JObj [(''primary'', JStr ''calm''), (''secondary'', JStr ''hopeful''),
                     (''intensity'', JNum 7), (''stability'', JNum 0.5)])]) ''hello''
       = (self', Inr m)
     \<and> secondary (emotional_state m) = None \<and> stability (emotional_state m) = None
     \<and> primary (emotional_state m) = ''calm'' \<and> intensity (emotional_state m) = 1"
proof -
  have "reconstructible (JObj [(''emotional_state'',
               JObj [(''primary'', JStr ''calm''), (''secondary'', JStr ''hopeful''),
                     (''intensity'', JNum 7), (''stability'', JNum 0.5)])])"
    by (simp add: absent_or_def)
  from partial_message_reconstructible [OF this]
  obtain m where m: "create_partial_meld strict_floats MELDProcessor_init
       (JObj [(''emotional_state'',
               JObj [(''primary'', JStr ''calm''), (''secondary'', JStr ''hopeful''),
                     (''intensity'', JNum 7), (''stability'', JNum 0.5)])]) ''hello''
       = (MELDProcessor_init\<lparr>fallbacks_used := fallbacks_used MELDProcessor_init + 1\<rparr>, Inr m)"
    unfolding create_partial_meld_def
    by blast
  have g: "nested_get (JObj [(''emotional_state'',
               JObj [(''primary'', JStr ''calm''), (''secondary'', JStr ''hopeful''),
                     (''intensity'', JNum 7), (''stability'', JNum 0.5)])])
             ''emotional_state'' ''primary'' (JStr ''helpful'') = Inr (JStr ''calm'')"
       "nested_get (JObj [(''emotional_state'',
               JObj [(''primary'', JStr ''calm''), (''secondary'', JStr ''hopeful''),
                     (''intensity'', JNum 7), (''stability'', JNum 0.5)])])
             ''emotional_state'' ''intensity'' (JNum 0.7) = Inr (JNum 7)"
    by (simp_all add: nested_get_def bind_exc_simps)
  from C10_secondary_and_stability_dropped [OF m] g m show ?thesis
    by auto
qed

end
